theory Spec2Isabelle
  imports Complex_Main "HOL-Library.Code_Target_Nat"
begin

section \<open>Receipt extraction, validation and normalisation pipeline\<close>

text \<open>
  A shallow embedding of the receipt OCR module (\<^verbatim>\<open>lib/ocrProcessing\<close>) and of the
  post-processing done by the \<^verbatim>\<open>POST /api/ocr\<close> handler.

  Conventions of the model.
  \<^item> A JavaScript string is a \<open>jsstring\<close>: the list of its UTF-16 code units, each a
    natural number. \<open>js ''abc''\<close> is the string of an ASCII literal.
  \<^item> A JavaScript number is a \<open>jsnum\<close>: \<open>NaN\<close>, the two infinities, or a finite value
    carried as the exact rational it denotes; rounding to 53 bits is not modelled and the
    sign of zero is not kept.
  \<^item> A \<^verbatim>\<open>Date\<close> is its time value: \<open>Some t\<close> with \<open>t\<close> in milliseconds since the
    epoch, or \<open>None\<close> for an invalid date. The local time zone of the process is UTC.
  \<^item> A thrown exception is a value \<open>Inl e\<close> of a sum type; \<^verbatim>\<open>try/catch\<close> is a case
    distinction on it.
  \<^item> Everything the module reads from outside (clock, random numbers, network replies,
    the receipt table, the parts of the host's library that are not modelled) is a field
    of the record \<open>world\<close>.
\<close>

subsection \<open>Characters and strings\<close>

type_synonym jsstring = "nat list"

abbreviation ch :: "char \<Rightarrow> nat" where
  "ch \<equiv> of_char"

abbreviation js :: "string \<Rightarrow> jsstring" where
  "js s \<equiv> map ch s"

definition is_digit :: "nat \<Rightarrow> bool" where
  \<comment> \<open>the regular expression class \<^verbatim>\<open>\d\<close>\<close>
  "is_digit c = (ch CHR ''0'' \<le> c \<and> c \<le> ch CHR ''9'')"

definition is_space :: "nat \<Rightarrow> bool" where
  \<comment> \<open>the class \<^verbatim>\<open>\s\<close>, also the characters removed by \<^verbatim>\<open>trim\<close> and skipped by
      \<^verbatim>\<open>parseFloat\<close>: the white space and the line terminators of the language\<close>
  "is_space c =
     (c = 0x09 \<or> c = 0x0A \<or> c = 0x0B \<or> c = 0x0C \<or> c = 0x0D \<or> c = 0x20 \<or> c = 0xA0
      \<or> c = 0x1680 \<or> (0x2000 \<le> c \<and> c \<le> 0x200A) \<or> c = 0x2028 \<or> c = 0x2029
      \<or> c = 0x202F \<or> c = 0x205F \<or> c = 0x3000 \<or> c = 0xFEFF)"

definition is_line_terminator :: "nat \<Rightarrow> bool" where
  \<comment> \<open>the characters that \<^verbatim>\<open>.\<close> does not match\<close>
  "is_line_terminator c = (c = 0x0A \<or> c = 0x0D \<or> c = 0x2028 \<or> c = 0x2029)"

definition is_dot :: "nat \<Rightarrow> bool" where
  \<comment> \<open>the pattern \<^verbatim>\<open>.\<close>\<close>
  "is_dot c = (\<not> is_line_terminator c)"

definition is_lower :: "nat \<Rightarrow> bool" where
  "is_lower c = (ch CHR ''a'' \<le> c \<and> c \<le> ch CHR ''z'')"

definition is_upper :: "nat \<Rightarrow> bool" where
  "is_upper c = (ch CHR ''A'' \<le> c \<and> c \<le> ch CHR ''Z'')"

definition is_word :: "nat \<Rightarrow> bool" where
  \<comment> \<open>the class \<^verbatim>\<open>\w\<close>\<close>
  "is_word c = (is_lower c \<or> is_upper c \<or> is_digit c \<or> c = ch CHR ''_'')"

definition upper_char :: "nat \<Rightarrow> nat" where
  \<comment> \<open>\<^verbatim>\<open>toUpperCase\<close> on one character of the class \<^verbatim>\<open>\w\<close>; also the case folding of
      the flag \<^verbatim>\<open>i\<close>, under which a character outside ASCII never matches an ASCII
      letter\<close>
  "upper_char c = (if is_lower c then c - 32 else c)"

definition lower_char :: "nat \<Rightarrow> nat" where
  "lower_char c = (if is_upper c then c + 32 else c)"

definition toLowerCase :: "(jsstring \<Rightarrow> jsstring) \<Rightarrow> jsstring \<Rightarrow> jsstring" where
  \<comment> \<open>\<^verbatim>\<open>s.toLowerCase()\<close>: on an ASCII string the letters A-Z are mapped to a-z; the
      lower case of any other string is left to the host, the first argument\<close>
  "toLowerCase host s = (if list_all (\<lambda>c. c < 128) s then map lower_char s else host s)"

definition trim :: "jsstring \<Rightarrow> jsstring" where
  "trim s = rev (dropWhile is_space (rev (dropWhile is_space s)))"

definition startsWith :: "jsstring \<Rightarrow> jsstring \<Rightarrow> bool" where
  "startsWith s p = (take (length p) s = p)"

fun includes_str :: "jsstring \<Rightarrow> jsstring \<Rightarrow> bool" where
  \<comment> \<open>\<^verbatim>\<open>s.includes(p)\<close>\<close>
  "includes_str [] p = (p = [])"
| "includes_str (c # cs) p = (startsWith (c # cs) p \<or> includes_str cs p)"

definition digit_val :: "nat \<Rightarrow> nat" where
  "digit_val c = c - ch CHR ''0''"

definition digits_val :: "jsstring \<Rightarrow> nat" where
  \<comment> \<open>the value of a string of decimal digits, as \<^verbatim>\<open>parseInt\<close> and \<^verbatim>\<open>Number\<close> read it\<close>
  "digits_val s = foldl (\<lambda>n c. 10 * n + digit_val c) 0 s"

definition digit_char :: "nat \<Rightarrow> nat" where
  "digit_char k = ch CHR ''0'' + k mod 10"

fun dec_digits :: "nat \<Rightarrow> jsstring" where
  \<comment> \<open>\<^verbatim>\<open>String(n)\<close> for a natural number \<open>n\<close>\<close>
  "dec_digits n = (if n < 10 then [digit_char n] else dec_digits (n div 10) @ [digit_char n])"

declare dec_digits.simps [simp del]

definition padStart :: "jsstring \<Rightarrow> nat \<Rightarrow> nat \<Rightarrow> jsstring" where
  "padStart s n c = replicate (n - length s) c @ s"

fun join_with :: "jsstring \<Rightarrow> jsstring list \<Rightarrow> jsstring" where
  "join_with sep [] = []"
| "join_with sep [x] = x"
| "join_with sep (x # y # ys) = x @ sep @ join_with sep (y # ys)"

subsection \<open>Numbers\<close>

datatype jsnum = NaN | PInf | NInf | Fin rat

definition jsnum_truthy :: "jsnum \<Rightarrow> bool" where
  "jsnum_truthy n = (n \<noteq> NaN \<and> n \<noteq> Fin 0)"

definition jsnum_or :: "jsnum \<Rightarrow> jsnum \<Rightarrow> jsnum" where
  \<comment> \<open>\<^verbatim>\<open>a || b\<close> on numbers\<close>
  "jsnum_or a b = (if jsnum_truthy a then a else b)"

definition finite_nonneg :: "jsnum \<Rightarrow> bool" where
  \<comment> \<open>a finite number that is not negative\<close>
  "finite_nonneg n = (case n of Fin q \<Rightarrow> 0 \<le> q | _ \<Rightarrow> False)"

definition pow10 :: "int \<Rightarrow> rat" where
  "pow10 e = (if 0 \<le> e then 10 ^ nat e else 1 / 10 ^ nat (- e))"

definition read_exponent :: "jsstring \<Rightarrow> int" where
  \<comment> \<open>the optional exponent part of a decimal literal: \<^verbatim>\<open>[eE][+-]?\d+\<close>, else 0\<close>
  "read_exponent s =
     (case s of
        [] \<Rightarrow> 0
      | c # r \<Rightarrow>
          if c = ch CHR ''e'' \<or> c = ch CHR ''E'' then
            (case r of
               [] \<Rightarrow> 0
             | d # r' \<Rightarrow>
                 if d = ch CHR ''-'' then - int (digits_val (takeWhile is_digit r'))
                 else if d = ch CHR ''+'' then int (digits_val (takeWhile is_digit r'))
                 else int (digits_val (takeWhile is_digit r)))
          else 0)"

definition read_decimal :: "jsstring \<Rightarrow> rat option" where
  \<comment> \<open>the longest prefix that is an unsigned decimal literal
      (\<^verbatim>\<open>\d+(\.\d*)?\<close> or \<^verbatim>\<open>\.\d+\<close>, with an optional exponent), as a value\<close>
  "read_decimal s =
     (let ip = takeWhile is_digit s;
          r1 = dropWhile is_digit s;
          fp = (case r1 of [] \<Rightarrow> [] | c # r \<Rightarrow> if c = ch CHR ''.'' then takeWhile is_digit r else []);
          r2 = (case r1 of [] \<Rightarrow> [] | c # r \<Rightarrow> if c = ch CHR ''.'' then dropWhile is_digit r else r1)
      in if ip = [] \<and> fp = [] then None
         else Some ((of_nat (digits_val ip) + of_nat (digits_val fp) / 10 ^ length fp)
                    * pow10 (read_exponent r2)))"

definition parseFloat :: "jsstring \<Rightarrow> jsnum" where
  \<comment> \<open>\<^verbatim>\<open>parseFloat\<close> on a string: leading white space is skipped, then the longest
      prefix that is a signed decimal literal or \<^verbatim>\<open>Infinity\<close> is read\<close>
  "parseFloat s =
     (let t = dropWhile is_space s;
          neg = (case t of [] \<Rightarrow> False | c # _ \<Rightarrow> c = ch CHR ''-'');
          u = (case t of [] \<Rightarrow> [] | c # r \<Rightarrow> if c = ch CHR ''-'' \<or> c = ch CHR ''+'' then r else t)
      in if startsWith u (js ''Infinity'') then (if neg then NInf else PInf)
         else (case read_decimal u of
                 None \<Rightarrow> NaN
               | Some q \<Rightarrow> Fin (if neg then - q else q)))"

definition Math_round :: "rat \<Rightarrow> int" where
  \<comment> \<open>\<^verbatim>\<open>Math.round\<close>: the nearest integer, halves towards plus infinity\<close>
  "Math_round x = \<lfloor>x + 1 / 2\<rfloor>"

definition Math_floor :: "rat \<Rightarrow> int" where
  "Math_floor x = \<lfloor>x\<rfloor>"

fun frac_digits :: "nat \<Rightarrow> rat \<Rightarrow> jsstring" where
  \<comment> \<open>the decimal digits of \<open>x\<close> after the point, for \<open>0 \<le> x < 1\<close>, at most \<open>fuel\<close> of them\<close>
  "frac_digits 0 x = []"
| "frac_digits (Suc fuel) x =
     (if x = 0 then []
      else digit_char (nat \<lfloor>x * 10\<rfloor>) # frac_digits fuel (x * 10 - of_int \<lfloor>x * 10\<rfloor>))"

definition strip_zeros :: "jsstring \<Rightarrow> jsstring" where
  "strip_zeros s = rev (dropWhile (\<lambda>c. c = ch CHR ''0'') (rev s))"

definition exp_form :: "jsstring \<Rightarrow> int \<Rightarrow> jsstring" where
  \<comment> \<open>scientific notation from the significant digits and the decimal exponent\<close>
  "exp_form ds e =
     take 1 ds @ (if length ds \<le> 1 then [] else ch CHR ''.'' # drop 1 ds)
     @ js ''e'' @ (if e < 0 then js ''-'' else js ''+'') @ dec_digits (nat \<bar>e\<bar>)"

definition pos_toString :: "rat \<Rightarrow> jsstring" where
  \<comment> \<open>\<^verbatim>\<open>Number.prototype.toString\<close> for a positive finite number: plain decimal notation
      from \<open>1e-6\<close> up to \<open>1e21\<close>, scientific notation outside. A binary floating-point
      number has at most 1074 digits after the point.\<close>
  "pos_toString q =
     (let ip = nat \<lfloor>q\<rfloor>;
          fs = frac_digits 1100 (q - of_int \<lfloor>q\<rfloor>)
      in if 10 ^ 21 \<le> q then
           exp_form (strip_zeros (dec_digits ip @ fs)) (int (length (dec_digits ip)) - 1)
         else if 1 / 10 ^ 6 \<le> q then
           dec_digits ip @ (if fs = [] then [] else ch CHR ''.'' # fs)
         else
           exp_form (dropWhile (\<lambda>c. c = ch CHR ''0'') fs)
                    (- int (length (takeWhile (\<lambda>c. c = ch CHR ''0'') fs)) - 1))"

definition Number_toString :: "jsnum \<Rightarrow> jsstring" where
  \<comment> \<open>\<^verbatim>\<open>String(n)\<close> for a number\<close>
  "Number_toString n =
     (case n of
        NaN \<Rightarrow> js ''NaN''
      | PInf \<Rightarrow> js ''Infinity''
      | NInf \<Rightarrow> js ''-Infinity''
      | Fin q \<Rightarrow>
          if q = 0 then js ''0''
          else if q < 0 then ch CHR ''-'' # pos_toString (- q)
          else pos_toString q)"

subsection \<open>JSON values\<close>

datatype json =
    JNull
  | JBool bool
  | JNum jsnum
  | JStr jsstring
  | JArr "json list"
  | JObj "(jsstring \<times> json) list"

datatype js_error = Error jsstring | TypeError jsstring | SyntaxError jsstring

text \<open>
  A JavaScript value read from a parsed reply is a \<open>json option\<close>: \<open>None\<close> is
  \<^verbatim>\<open>undefined\<close>, the value of a property that is absent.
\<close>

definition is_json_ws :: "nat \<Rightarrow> bool" where
  "is_json_ws c = (c = 0x20 \<or> c = 0x09 \<or> c = 0x0A \<or> c = 0x0D)"

definition hex_val :: "nat \<Rightarrow> nat option" where
  "hex_val c =
     (if is_digit c then Some (digit_val c)
      else if ch CHR ''a'' \<le> c \<and> c \<le> ch CHR ''f'' then Some (c - 87)
      else if ch CHR ''A'' \<le> c \<and> c \<le> ch CHR ''F'' then Some (c - 55)
      else None)"

definition escape_char :: "nat \<Rightarrow> nat option" where
  "escape_char e =
     (if e = 0x22 then Some 0x22
      else if e = 0x5C then Some 0x5C
      else if e = ch CHR ''/'' then Some (ch CHR ''/'')
      else if e = ch CHR ''b'' then Some 0x08
      else if e = ch CHR ''f'' then Some 0x0C
      else if e = ch CHR ''n'' then Some 0x0A
      else if e = ch CHR ''r'' then Some 0x0D
      else if e = ch CHR ''t'' then Some 0x09
      else None)"

fun parse_string_chars :: "jsstring \<Rightarrow> jsstring \<Rightarrow> (jsstring \<times> jsstring) option" where
  \<comment> \<open>the characters of a JSON string after its opening quote (0x22), up to the closing
      quote: the string and the rest of the text. 0x5C is the backslash; an escape
      \<^verbatim>\<open>\uXXXX\<close> is the code unit of the four hexadecimal digits.\<close>
  "parse_string_chars [] acc = None"
| "parse_string_chars (c # r) acc =
     (if c = 0x22 then Some (rev acc, r)
      else if c = 0x5C then
        (case r of
           [] \<Rightarrow> None
         | e # r' \<Rightarrow>
             if e = ch CHR ''u'' then
               (case r' of
                  h1 # h2 # h3 # h4 # r'' \<Rightarrow>
                    (case hex_val h1 of
                       None \<Rightarrow> None
                     | Some a \<Rightarrow>
                         (case hex_val h2 of
                            None \<Rightarrow> None
                          | Some b \<Rightarrow>
                              (case hex_val h3 of
                                 None \<Rightarrow> None
                               | Some c' \<Rightarrow>
                                   (case hex_val h4 of
                                      None \<Rightarrow> None
                                    | Some d \<Rightarrow>
                                        parse_string_chars r''
                                          ((4096 * a + 256 * b + 16 * c' + d) # acc)))))
                | _ \<Rightarrow> None)
             else
               (case escape_char e of
                  None \<Rightarrow> None
                | Some x \<Rightarrow> parse_string_chars r' (x # acc)))
      else if c < 0x20 then None
      else parse_string_chars r (c # acc))"

definition parse_number :: "jsstring \<Rightarrow> (json \<times> jsstring) option" where
  \<comment> \<open>a JSON number: \<^verbatim>\<open>-?(0|[1-9]\d*)(\.\d+)?([eE][+-]?\d+)?\<close>\<close>
  "parse_number s =
     (let neg = (case s of [] \<Rightarrow> False | c # _ \<Rightarrow> c = ch CHR ''-'');
          u = (if neg then drop 1 s else s);
          ip = (case u of [] \<Rightarrow> [] | c # _ \<Rightarrow> if c = ch CHR ''0'' then js ''0'' else takeWhile is_digit u);
          r1 = drop (length ip) u;
          has_frac = (case r1 of [] \<Rightarrow> False | c # _ \<Rightarrow> c = ch CHR ''.'');
          fp = (if has_frac then takeWhile is_digit (drop 1 r1) else []);
          r2 = (if has_frac then drop (1 + length fp) r1 else r1);
          has_exp = (case r2 of [] \<Rightarrow> False | c # _ \<Rightarrow> c = ch CHR ''e'' \<or> c = ch CHR ''E'');
          r3 = (if has_exp then drop 1 r2 else r2);
          eneg = (has_exp \<and> (case r3 of [] \<Rightarrow> False | c # _ \<Rightarrow> c = ch CHR ''-''));
          esign = (has_exp \<and> (case r3 of [] \<Rightarrow> False | c # _ \<Rightarrow> c = ch CHR ''-'' \<or> c = ch CHR ''+''));
          r4 = (if esign then drop 1 r3 else r3);
          ep = (if has_exp then takeWhile is_digit r4 else []);
          r5 = drop (length ep) r4;
          q = (of_nat (digits_val ip) + of_nat (digits_val fp) / 10 ^ length fp)
              * pow10 (if eneg then - int (digits_val ep) else int (digits_val ep))
      in if ip = [] \<or> (has_frac \<and> fp = []) \<or> (has_exp \<and> ep = []) then None
         else Some (JNum (Fin (if neg then - q else q)), r5))"

fun parse_value :: "nat \<Rightarrow> jsstring \<Rightarrow> (json \<times> jsstring) option"
  and parse_elements :: "nat \<Rightarrow> jsstring \<Rightarrow> (json list \<times> jsstring) option"
  and parse_members :: "nat \<Rightarrow> jsstring \<Rightarrow> ((jsstring \<times> json) list \<times> jsstring) option" where
  "parse_value 0 s = None"
| "parse_value (Suc f) s =
     (case dropWhile is_json_ws s of
        [] \<Rightarrow> None
      | c # r \<Rightarrow>
          if c = ch CHR ''{'' then
            (case dropWhile is_json_ws r of
               [] \<Rightarrow> None
             | d # r' \<Rightarrow>
                 if d = ch CHR ''}'' then Some (JObj [], r')
                 else map_option (\<lambda>(kvs, t). (JObj kvs, t)) (parse_members f r))
          else if c = ch CHR ''['' then
            (case dropWhile is_json_ws r of
               [] \<Rightarrow> None
             | d # r' \<Rightarrow>
                 if d = ch CHR '']'' then Some (JArr [], r')
                 else map_option (\<lambda>(vs, t). (JArr vs, t)) (parse_elements f r))
          else if c = 0x22 then map_option (\<lambda>(x, t). (JStr x, t)) (parse_string_chars r [])
          else if startsWith (c # r) (js ''true'') then Some (JBool True, drop 4 (c # r))
          else if startsWith (c # r) (js ''false'') then Some (JBool False, drop 5 (c # r))
          else if startsWith (c # r) (js ''null'') then Some (JNull, drop 4 (c # r))
          else parse_number (c # r))"
| "parse_elements 0 s = None"
| "parse_elements (Suc f) s =
     (case parse_value f s of
        None \<Rightarrow> None
      | Some (v, r) \<Rightarrow>
          (case dropWhile is_json_ws r of
             [] \<Rightarrow> None
           | c # r' \<Rightarrow>
               if c = ch CHR '','' then map_option (\<lambda>(vs, t). (v # vs, t)) (parse_elements f r')
               else if c = ch CHR '']'' then Some ([v], r')
               else None))"
| "parse_members 0 s = None"
| "parse_members (Suc f) s =
     (case dropWhile is_json_ws s of
        [] \<Rightarrow> None
      | q # r \<Rightarrow>
          if q \<noteq> 0x22 then None
          else
            (case parse_string_chars r [] of
               None \<Rightarrow> None
             | Some (k, r1) \<Rightarrow>
                 (case dropWhile is_json_ws r1 of
                    [] \<Rightarrow> None
                  | c # r2 \<Rightarrow>
                      if c \<noteq> ch CHR '':'' then None
                      else
                        (case parse_value f r2 of
                           None \<Rightarrow> None
                         | Some (v, r3) \<Rightarrow>
                             (case dropWhile is_json_ws r3 of
                                [] \<Rightarrow> None
                              | d # r4 \<Rightarrow>
                                  if d = ch CHR '','' then
                                    map_option (\<lambda>(kvs, t). ((k, v) # kvs, t)) (parse_members f r4)
                                  else if d = ch CHR ''}'' then Some ([(k, v)], r4)
                                  else None)))))"

definition JSON_parse :: "jsstring \<Rightarrow> json option" where
  \<comment> \<open>\<^verbatim>\<open>JSON.parse\<close>; \<open>None\<close> is the \<^verbatim>\<open>SyntaxError\<close>. Every recursive call but the one
      from a list to its first element follows a consumed character, so twice the length
      of the text bounds the depth of the recursion.\<close>
  "JSON_parse s =
     (case parse_value (2 * length s + 2) s of
        None \<Rightarrow> None
      | Some (v, r) \<Rightarrow> if dropWhile is_json_ws r = [] then Some v else None)"

fun last_binding :: "(jsstring \<times> json) list \<Rightarrow> jsstring \<Rightarrow> json option" where
  \<comment> \<open>a key that occurs twice in an object keeps its last value\<close>
  "last_binding [] k = None"
| "last_binding ((k', v) # kvs) k =
     (case last_binding kvs k of
        Some w \<Rightarrow> Some w
      | None \<Rightarrow> if k' = k then Some v else None)"

definition get_prop :: "json \<Rightarrow> jsstring \<Rightarrow> json option" where
  \<comment> \<open>the property read \<^verbatim>\<open>v.k\<close> on a parsed value other than \<^verbatim>\<open>null\<close>, for a
      key \<open>k\<close> that no prototype defines: \<^verbatim>\<open>undefined\<close> on a value that is not an
      object or does not have the key\<close>
  "get_prop v k = (case v of JObj kvs \<Rightarrow> last_binding kvs k | _ \<Rightarrow> None)"

definition truthy :: "json option \<Rightarrow> bool" where
  "truthy v =
     (case v of
        None \<Rightarrow> False
      | Some JNull \<Rightarrow> False
      | Some (JBool b) \<Rightarrow> b
      | Some (JNum n) \<Rightarrow> jsnum_truthy n
      | Some (JStr s) \<Rightarrow> s \<noteq> []
      | Some _ \<Rightarrow> True)"

fun collect :: "(js_error + 'a) list \<Rightarrow> js_error + 'a list" where
  \<comment> \<open>the results of a sequence of steps, or the first error\<close>
  "collect [] = Inr []"
| "collect (x # xs) =
     (case x of
        Inl e \<Rightarrow> Inl e
      | Inr a \<Rightarrow> (case collect xs of Inl e \<Rightarrow> Inl e | Inr as \<Rightarrow> Inr (a # as)))"

fun json_toString :: "json \<Rightarrow> js_error + jsstring" where
  \<comment> \<open>\<^verbatim>\<open>String(v)\<close>, also the conversion that \<^verbatim>\<open>parseFloat(v)\<close> and \<^verbatim>\<open>new Date(v)\<close>
      apply to an object. An array is its elements joined by commas, \<^verbatim>\<open>null\<close> elements
      empty. A plain object is \<^verbatim>\<open>[object Object]\<close>, unless it has a key
      \<^verbatim>\<open>toString\<close> of its own: the value of that key is not a function, the inherited
      \<^verbatim>\<open>valueOf\<close> returns the object itself, and the conversion throws a
      \<^verbatim>\<open>TypeError\<close>.\<close>
  "json_toString JNull = Inr (js ''null'')"
| "json_toString (JBool b) = Inr (if b then js ''true'' else js ''false'')"
| "json_toString (JNum n) = Inr (Number_toString n)"
| "json_toString (JStr s) = Inr s"
| "json_toString (JArr vs) =
     (case collect (map (\<lambda>v. if v = JNull then Inr [] else json_toString v) vs) of
        Inl e \<Rightarrow> Inl e
      | Inr parts \<Rightarrow> Inr (join_with (js '','') parts))"
| "json_toString (JObj kvs) =
     (if last_binding kvs (js ''toString'') \<noteq> None
      then Inl (TypeError (js ''Cannot convert object to primitive value''))
      else Inr (js ''[object Object]''))"

definition value_toString :: "json option \<Rightarrow> js_error + jsstring" where
  "value_toString v = (case v of None \<Rightarrow> Inr (js ''undefined'') | Some x \<Rightarrow> json_toString x)"

definition parseFloat_value :: "json option \<Rightarrow> js_error + jsnum" where
  \<comment> \<open>\<^verbatim>\<open>parseFloat(v)\<close> on any value: the value is converted to a string first. The string
      of a number reads back as that number.\<close>
  "parseFloat_value v =
     (case v of
        Some (JNum n) \<Rightarrow> Inr n
      | _ \<Rightarrow> (case value_toString v of Inl e \<Rightarrow> Inl e | Inr s \<Rightarrow> Inr (parseFloat s)))"

subsection \<open>Dates\<close>

text \<open>
  The day arithmetic of the language standard: \<open>Day\<close>, \<open>DayFromYear\<close>, \<open>YearFromTime\<close>,
  \<open>MonthFromTime\<close>, \<open>DateFromTime\<close>, \<open>MakeDay\<close>, \<open>MakeDate\<close> and \<open>TimeClip\<close>.
\<close>

definition msPerDay :: int where
  "msPerDay = 86400000"

definition Day :: "int \<Rightarrow> int" where
  "Day t = t div msPerDay"

definition TimeWithinDay :: "int \<Rightarrow> int" where
  "TimeWithinDay t = t mod msPerDay"

definition DayFromYear :: "int \<Rightarrow> int" where
  "DayFromYear y = 365 * (y - 1970) + (y - 1969) div 4 - (y - 1901) div 100 + (y - 1601) div 400"

definition InLeapYear :: "int \<Rightarrow> int" where
  \<comment> \<open>1 in a leap year, else 0\<close>
  "InLeapYear y = (if y mod 4 = 0 \<and> (y mod 100 \<noteq> 0 \<or> y mod 400 = 0) then 1 else 0)"

function year_up :: "int \<Rightarrow> int \<Rightarrow> int" where
  \<comment> \<open>the last year from \<open>y\<close> on that starts on or before day \<open>d\<close>\<close>
  "year_up d y = (if DayFromYear (y + 1) \<le> d then year_up d (y + 1) else y)"
  by pat_completeness auto
termination
proof (relation "measure (\<lambda>(d, y). nat (d + 1 - DayFromYear (y + 1)))")
  show "wf (measure (\<lambda>(d, y). nat (d + 1 - DayFromYear (y + 1))))"
    by simp
next
  fix d y :: int
  assume a: "DayFromYear (y + 1) \<le> d"
  have f4: "(y - 1968) div 4 \<le> (y - 1967) div 4"
    by (rule zdiv_mono1) simp_all
  have "(y - 1899) div 100 \<le> (y - 1900 + 100) div 100"
    by (rule zdiv_mono1) simp_all
  then have f100: "(y - 1899) div 100 \<le> (y - 1900) div 100 + 1"
    by simp
  have f400: "(y - 1600) div 400 \<le> (y - 1599) div 400"
    by (rule zdiv_mono1) simp_all
  have "DayFromYear (y + 1) < DayFromYear (y + 1 + 1)"
    using f4 f100 f400 by (simp add: DayFromYear_def)
  with a show "((d, y + 1), (d, y)) \<in> measure (\<lambda>(d, y). nat (d + 1 - DayFromYear (y + 1)))"
    by simp
qed

declare year_up.simps [simp del]

definition YearFromDay :: "int \<Rightarrow> int" where
  \<comment> \<open>the year that day \<open>d\<close> falls in: the search starts from a year that begins on or
      before \<open>d\<close>, since a year has 365 or 366 days\<close>
  "YearFromDay d = year_up d (1970 + (if 0 \<le> d then d div 366 else d div 365))"

definition YearFromTime :: "int \<Rightarrow> int" where
  "YearFromTime t = YearFromDay (Day t)"

definition DayWithinYear :: "int \<Rightarrow> int" where
  "DayWithinYear t = Day t - DayFromYear (YearFromTime t)"

definition days_before_month :: "int \<Rightarrow> int \<Rightarrow> int" where
  \<comment> \<open>the days of a year before month \<open>m\<close> (0 = January), \<open>l\<close> = 1 in a leap year\<close>
  "days_before_month m l =
     (if m \<le> 0 then 0 else if m = 1 then 31 else if m = 2 then 59 + l
      else if m = 3 then 90 + l else if m = 4 then 120 + l else if m = 5 then 151 + l
      else if m = 6 then 181 + l else if m = 7 then 212 + l else if m = 8 then 243 + l
      else if m = 9 then 273 + l else if m = 10 then 304 + l else 334 + l)"

definition month_of_day :: "int \<Rightarrow> int \<Rightarrow> int" where
  "month_of_day dwy l =
     (if dwy < 31 then 0 else if dwy < 59 + l then 1 else if dwy < 90 + l then 2
      else if dwy < 120 + l then 3 else if dwy < 151 + l then 4 else if dwy < 181 + l then 5
      else if dwy < 212 + l then 6 else if dwy < 243 + l then 7 else if dwy < 273 + l then 8
      else if dwy < 304 + l then 9 else if dwy < 334 + l then 10 else 11)"

definition MonthFromTime :: "int \<Rightarrow> int" where
  "MonthFromTime t = month_of_day (DayWithinYear t) (InLeapYear (YearFromTime t))"

definition DateFromTime :: "int \<Rightarrow> int" where
  "DateFromTime t =
     DayWithinYear t - days_before_month (MonthFromTime t) (InLeapYear (YearFromTime t)) + 1"

definition MakeDay :: "int \<Rightarrow> int \<Rightarrow> int \<Rightarrow> int" where
  \<comment> \<open>the day number of a year, a month (0 = January; any integer, carried into the year)
      and a day of the month (any integer, carried into the months)\<close>
  "MakeDay year month dt =
     (let ym = year + month div 12; mn = month mod 12
      in DayFromYear ym + days_before_month mn (InLeapYear ym) + dt - 1)"

definition TimeClip :: "int \<Rightarrow> int option" where
  "TimeClip t = (if \<bar>t\<bar> > 8640000000000000 then None else Some t)"

definition new_Date_ymd :: "int \<Rightarrow> int \<Rightarrow> int \<Rightarrow> int option" where
  \<comment> \<open>\<^verbatim>\<open>new Date(year, month, day)\<close>: local midnight; a year from 0 to 99 means 1900 + year\<close>
  "new_Date_ymd y m d =
     TimeClip (MakeDay (if 0 \<le> y \<and> y \<le> 99 then 1900 + y else y) m d * msPerDay)"

definition getFullYear :: "int \<Rightarrow> int" where
  "getFullYear t = YearFromTime t"

definition getMonth :: "int \<Rightarrow> int" where
  "getMonth t = MonthFromTime t"

definition getDate :: "int \<Rightarrow> int" where
  "getDate t = DateFromTime t"

definition setDate :: "int \<Rightarrow> int \<Rightarrow> int option" where
  \<comment> \<open>\<^verbatim>\<open>d.setDate(n)\<close> on a valid date: the new time value\<close>
  "setDate t n = TimeClip (MakeDay (YearFromTime t) (MonthFromTime t) n * msPerDay + TimeWithinDay t)"

definition pad_num :: "nat \<Rightarrow> int \<Rightarrow> jsstring" where
  "pad_num w n = padStart (dec_digits (nat n)) w (ch CHR ''0'')"

definition iso_date :: "int \<Rightarrow> jsstring" where
  \<comment> \<open>\<^verbatim>\<open>d.toISOString().split("T")[0]\<close> on a valid date: the calendar date in UTC; a
      year outside 0..9999 is written with a sign and six digits\<close>
  "iso_date t =
     (let y = YearFromTime t
      in (if 0 \<le> y \<and> y \<le> 9999 then pad_num 4 y
          else (if y < 0 then js ''-'' else js ''+'') @ pad_num 6 \<bar>y\<bar>)
         @ js ''-'' @ pad_num 2 (MonthFromTime t + 1) @ js ''-'' @ pad_num 2 (DateFromTime t))"

definition days_in_month :: "int \<Rightarrow> int \<Rightarrow> int" where
  \<comment> \<open>month 1 = January\<close>
  "days_in_month y m =
     (if m = 2 then 28 + InLeapYear y else if m \<in> {4, 6, 9, 11} then 30 else 31)"

definition iso_calendar_date :: "jsstring \<Rightarrow> int option" where
  \<comment> \<open>a string of the exact form \<^verbatim>\<open>YYYY-MM-DD\<close> that names a day of the calendar: the
      time value of its midnight in UTC\<close>
  "iso_calendar_date s =
     (if length s = 10 \<and> list_all is_digit (take 4 s) \<and> s ! 4 = ch CHR ''-''
         \<and> list_all is_digit (take 2 (drop 5 s)) \<and> s ! 7 = ch CHR ''-''
         \<and> list_all is_digit (drop 8 s)
      then
        (let y = int (digits_val (take 4 s));
             m = int (digits_val (take 2 (drop 5 s)));
             d = int (digits_val (drop 8 s))
         in if 1 \<le> m \<and> m \<le> 12 \<and> 1 \<le> d \<and> d \<le> days_in_month y m
            then Some (MakeDay y (m - 1) d * msPerDay) else None)
      else None)"

definition Date_parse :: "(jsstring \<Rightarrow> int option) \<Rightarrow> jsstring \<Rightarrow> int option" where
  \<comment> \<open>\<^verbatim>\<open>new Date(s)\<close> on a string. A calendar date \<^verbatim>\<open>YYYY-MM-DD\<close> is read as midnight
      UTC; what any other string yields is left to the host, the first argument.\<close>
  "Date_parse host s =
     (case iso_calendar_date s of
        Some t \<Rightarrow> Some t
      | None \<Rightarrow> host s)"

definition truncate_rat :: "rat \<Rightarrow> int" where
  "truncate_rat q = (if 0 \<le> q then \<lfloor>q\<rfloor> else \<lceil>q\<rceil>)"

definition new_Date_value :: "(jsstring \<Rightarrow> int option) \<Rightarrow> json option \<Rightarrow> js_error + int option" where
  \<comment> \<open>\<^verbatim>\<open>new Date(v)\<close> on any value: a string is parsed; an array or object is
      converted to a string, which may throw, and parsed; anything else is converted to a
      number\<close>
  "new_Date_value host v =
     (case v of
        None \<Rightarrow> Inr None
      | Some JNull \<Rightarrow> Inr (Some 0)
      | Some (JBool b) \<Rightarrow> Inr (Some (if b then 1 else 0))
      | Some (JNum (Fin q)) \<Rightarrow> Inr (TimeClip (truncate_rat q))
      | Some (JNum _) \<Rightarrow> Inr None
      | Some (JStr s) \<Rightarrow> Inr (Date_parse host s)
      | Some x \<Rightarrow>
          (case json_toString x of
             Inl e \<Rightarrow> Inl e
           | Inr s \<Rightarrow> Inr (Date_parse host s)))"

subsection \<open>Regular expressions\<close>

text \<open>
  Every pattern of the module is a sequence of character classes, each with a greedy
  repetition count, possibly closed by the end of input. \<open>Rep p lo hi\<close> matches between
  \<open>lo\<close> and \<open>hi\<close> characters of class \<open>p\<close> (\<open>None\<close>: no upper bound), as many as possible
  first; \<open>Eoi\<close> is \<^verbatim>\<open>$\<close>.
\<close>

datatype rx_item = Rep "nat \<Rightarrow> bool" nat "nat option" | Eoi

fun first_some :: "(nat \<Rightarrow> 'a option) \<Rightarrow> nat list \<Rightarrow> 'a option" where
  "first_some f [] = None"
| "first_some f (k # ks) = (case f k of Some r \<Rightarrow> Some r | None \<Rightarrow> first_some f ks)"

primrec rx_match :: "rx_item list \<Rightarrow> jsstring \<Rightarrow> nat list option" where
  \<comment> \<open>the match of the pattern at the start of the string that backtracking finds first:
      the number of characters each item takes\<close>
  "rx_match [] s = Some []"
| "rx_match (it # r) s =
     (case it of
        Eoi \<Rightarrow> (if s = [] then map_option ((#) 0) (rx_match r s) else None)
      | Rep p lo hi \<Rightarrow>
          (let avail = length (takeWhile p s);
               top = (case hi of None \<Rightarrow> avail | Some h \<Rightarrow> min h avail)
           in first_some (\<lambda>k. map_option ((#) k) (rx_match r (drop k s))) (rev [lo ..< Suc top])))"

fun rx_search :: "rx_item list \<Rightarrow> jsstring \<Rightarrow> (nat \<times> nat list) option" where
  \<comment> \<open>the leftmost match: its start and the lengths of its items\<close>
  "rx_search rx [] = map_option (Pair 0) (rx_match rx [])"
| "rx_search rx (c # cs) =
     (case rx_match rx (c # cs) of
        Some ls \<Rightarrow> Some (0, ls)
      | None \<Rightarrow> map_option (\<lambda>(i, ls). (Suc i, ls)) (rx_search rx cs))"

fun split_lengths :: "nat list \<Rightarrow> jsstring \<Rightarrow> jsstring list" where
  "split_lengths [] s = []"
| "split_lengths (n # ns) s = take n s # split_lengths ns (drop n s)"

definition rx_exec :: "rx_item list \<Rightarrow> jsstring \<Rightarrow> jsstring list option" where
  \<comment> \<open>\<^verbatim>\<open>s.match(rx)\<close> without the global flag: the text of each item of the leftmost match\<close>
  "rx_exec rx s =
     (case rx_search rx s of
        None \<Rightarrow> None
      | Some (i, ls) \<Rightarrow> Some (split_lengths ls (drop i s)))"

definition rx_replace :: "rx_item list \<Rightarrow> jsstring \<Rightarrow> jsstring \<Rightarrow> jsstring" where
  \<comment> \<open>\<^verbatim>\<open>s.replace(rx, r)\<close> without the global flag\<close>
  "rx_replace rx r s =
     (case rx_search rx s of
        None \<Rightarrow> s
      | Some (i, ls) \<Rightarrow> take i s @ r @ drop (i + sum_list ls) s)"

definition one :: "(nat \<Rightarrow> bool) \<Rightarrow> rx_item" where
  "one p = Rep p 1 (Some 1)"

definition lit :: "nat \<Rightarrow> rx_item" where
  "lit c = Rep (\<lambda>x. x = c) 1 (Some 1)"

definition lit_ci :: "nat \<Rightarrow> rx_item" where
  \<comment> \<open>a letter under the flag \<^verbatim>\<open>i\<close>\<close>
  "lit_ci c = Rep (\<lambda>x. upper_char x = upper_char c) 1 (Some 1)"

definition plus :: "(nat \<Rightarrow> bool) \<Rightarrow> rx_item" where
  "plus p = Rep p 1 None"

definition star :: "(nat \<Rightarrow> bool) \<Rightarrow> rx_item" where
  "star p = Rep p 0 None"

definition opt :: "(nat \<Rightarrow> bool) \<Rightarrow> rx_item" where
  "opt p = Rep p 0 (Some 1)"

definition is_sep :: "nat \<Rightarrow> bool" where
  \<comment> \<open>the class \<^verbatim>\<open>[_-]\<close>\<close>
  "is_sep c = (c = ch CHR ''_'' \<or> c = ch CHR ''-'')"

subsection \<open>The outside world\<close>

record http_response =
  ok :: bool
  status :: nat
  content_type :: "jsstring option"
  body_base64 :: jsstring

datatype api_response =
    NoMessage
  | Message "jsstring option"

text \<open>
  \<open>NoMessage\<close> is a completion without \<^verbatim>\<open>choices[0].message\<close>; \<open>Message c\<close> carries
  the content of the first choice, \<open>None\<close> for \<^verbatim>\<open>null\<close>.
\<close>

record receipt =
  r_userId :: int
  r_merchantName :: jsstring
  r_amount :: jsnum
  r_receiptDate :: int
  r_createdAt :: int

record world =
  w_now :: int
  w_random :: "nat \<Rightarrow> rat"
  w_fetch :: "jsstring \<Rightarrow> js_error + http_response"
  w_openai_key :: "jsstring option"
  w_vision :: "jsstring \<Rightarrow> jsstring \<Rightarrow> js_error + api_response"
  w_date_parse :: "jsstring \<Rightarrow> int option"
  w_toLowerCase :: "jsstring \<Rightarrow> jsstring"
  w_receipts :: "js_error + receipt list"

text \<open>
  \<open>w_now\<close> is the clock, read as one instant during an invocation; \<open>w_random w k\<close> is
  what the \<open>k\<close>-th call of \<^verbatim>\<open>Math.random\<close> returns; \<open>w_fetch\<close> is \<^verbatim>\<open>fetch\<close>;
  \<open>w_openai_key\<close> is the key store's entry; \<open>w_vision\<close> is the completion request, from
  the image payload and the file name; \<open>w_date_parse\<close> is the host's reading of date
  strings that are not plain calendar dates; \<open>w_toLowerCase\<close> is the host's lower case
  of strings that are not ASCII; \<open>w_receipts\<close> is the receipt table, or the error that
  a query of it raises.
\<close>

subsection \<open>The module\<close>

record DateResult =
  date :: jsstring
  confidence :: jsstring

record ExtractedData =
  merchant_name :: jsstring
  amount :: jsnum
  category :: jsstring
  receipt_date :: jsstring
  confidence :: jsstring
  date_source :: jsstring
  extraction_notes :: "json option"
  currency :: "jsstring option"

definition imageUrlToBase64 :: "world \<Rightarrow> jsstring \<Rightarrow> js_error + jsstring" where
  "imageUrlToBase64 w imageUrl =
     (case w_fetch w imageUrl of
        Inl e \<Rightarrow> Inl e
      | Inr response \<Rightarrow>
          if \<not> ok response
          then Inl (Error ((js ''Failed to fetch image: '') @ dec_digits (status response)))
          else
            (let contentType =
                   (case content_type response of
                      None \<Rightarrow> (js ''image/jpeg'')
                    | Some c \<Rightarrow> if c = [] then (js ''image/jpeg'') else c)
             in if \<not> startsWith contentType (js ''image/'')
                then Inl (Error ((js ''Unsupported file type: '') @ contentType
                                 @ (js ''. Only images supported.'')))
                else Inr ((js ''data:'') @ contentType @ (js '';base64,'') @ body_base64 response)))"

definition filename_ymd :: "rx_item list" where
  \<comment> \<open>\<^verbatim>\<open>/(\d{4})[_-](\d{1,2})[_-](\d{1,2})/\<close>\<close>
  "filename_ymd =
     [Rep is_digit 4 (Some 4), one is_sep, Rep is_digit 1 (Some 2), one is_sep,
      Rep is_digit 1 (Some 2)]"

definition filename_mdy :: "rx_item list" where
  \<comment> \<open>\<^verbatim>\<open>/(\d{1,2})[_-](\d{1,2})[_-](\d{4})/\<close>\<close>
  "filename_mdy =
     [Rep is_digit 1 (Some 2), one is_sep, Rep is_digit 1 (Some 2), one is_sep,
      Rep is_digit 4 (Some 4)]"

definition date_in_range :: "int \<Rightarrow> nat \<Rightarrow> nat \<Rightarrow> nat \<Rightarrow> bool" where
  "date_in_range today year month day =
     (year \<ge> 2020 \<and> int year \<le> getFullYear today \<and> month \<ge> 1 \<and> month \<le> 12
      \<and> day \<ge> 1 \<and> day \<le> 31)"

definition ymd_string :: "nat \<Rightarrow> nat \<Rightarrow> nat \<Rightarrow> jsstring" where
  "ymd_string year month day =
     dec_digits year @ (js ''-'') @ padStart (dec_digits month) 2 (ch CHR ''0'')
     @ (js ''-'') @ padStart (dec_digits day) 2 (ch CHR ''0'')"

definition filename_date_ymd :: "int \<Rightarrow> jsstring \<Rightarrow> jsstring option" where
  \<comment> \<open>the first block of \<open>generateReasonableDate\<close>\<close>
  "filename_date_ymd today filename =
     (case rx_exec filename_ymd filename of
        Some [y, _, m, _, d] \<Rightarrow>
          if date_in_range today (digits_val y) (digits_val m) (digits_val d)
          then Some (ymd_string (digits_val y) (digits_val m) (digits_val d))
          else None
      | _ \<Rightarrow> None)"

definition filename_date_mdy :: "int \<Rightarrow> jsstring \<Rightarrow> jsstring option" where
  \<comment> \<open>the second block of \<open>generateReasonableDate\<close>\<close>
  "filename_date_mdy today filename =
     (case rx_exec filename_mdy filename of
        Some [m, _, d, _, y] \<Rightarrow>
          if date_in_range today (digits_val y) (digits_val m) (digits_val d)
          then Some (ymd_string (digits_val y) (digits_val m) (digits_val d))
          else None
      | _ \<Rightarrow> None)"

definition recent_date :: "int \<Rightarrow> rat \<Rightarrow> jsstring" where
  \<comment> \<open>the last block of \<open>generateReasonableDate\<close>; \<open>rnd\<close> is the random number drawn. The
      date is valid whenever it is written, which \<open>iso_date 0\<close> stands in for otherwise.\<close>
  "recent_date today rnd =
     (let daysAgo = Math_floor (rnd * 14)
      in case setDate today (getDate today - daysAgo) of
           Some t \<Rightarrow> iso_date t
         | None \<Rightarrow> iso_date 0)"

definition generateReasonableDate :: "int \<Rightarrow> rat \<Rightarrow> jsstring \<Rightarrow> DateResult" where
  "generateReasonableDate today rnd filename =
     (case filename_date_ymd today filename of
        Some d \<Rightarrow> \<lparr>date = d, confidence = (js ''medium'')\<rparr>
      | None \<Rightarrow>
          (case filename_date_mdy today filename of
             Some d \<Rightarrow> \<lparr>date = d, confidence = (js ''medium'')\<rparr>
           | None \<Rightarrow> \<lparr>date = recent_date today rnd, confidence = (js ''low'')\<rparr>))"

definition slash_mdy :: "rx_item list" where
  \<comment> \<open>\<^verbatim>\<open>/(\d{1,2})\/(\d{1,2})\/(\d{4})/\<close>\<close>
  "slash_mdy =
     [Rep is_digit 1 (Some 2), lit (ch CHR ''/''), Rep is_digit 1 (Some 2), lit (ch CHR ''/''),
      Rep is_digit 4 (Some 4)]"

definition dash_mdy :: "rx_item list" where
  \<comment> \<open>\<^verbatim>\<open>/(\d{1,2})-(\d{1,2})-(\d{4})/\<close>\<close>
  "dash_mdy =
     [Rep is_digit 1 (Some 2), lit (ch CHR ''-''), Rep is_digit 1 (Some 2), lit (ch CHR ''-''),
      Rep is_digit 4 (Some 4)]"

definition mdy_date :: "jsstring list \<Rightarrow> int option" where
  \<comment> \<open>\<^verbatim>\<open>new Date(parseInt(match[3]), parseInt(match[1]) - 1, parseInt(match[2]))\<close>\<close>
  "mdy_date groups =
     (case groups of
        [m, _, d, _, y] \<Rightarrow>
          new_Date_ymd (int (digits_val y)) (int (digits_val m) - 1) (int (digits_val d))
      | _ \<Rightarrow> None)"

definition reparse_formats :: "jsstring \<Rightarrow> int option" where
  \<comment> \<open>the loop over the two formats in \<open>validateAndFixDate\<close>\<close>
  "reparse_formats dateString =
     (case rx_exec slash_mdy dateString of
        Some groups \<Rightarrow> mdy_date groups
      | None \<Rightarrow>
          (case rx_exec dash_mdy dateString of
             Some groups \<Rightarrow> mdy_date groups
           | None \<Rightarrow> None))"

definition oneYearAgo :: "int \<Rightarrow> int option" where
  "oneYearAgo today = new_Date_ymd (getFullYear today - 1) (getMonth today) (getDate today)"

definition tomorrow :: "int \<Rightarrow> int" where
  "tomorrow today = today + 24 * 60 * 60 * 1000"

definition date_gt :: "int option \<Rightarrow> int option \<Rightarrow> bool" where
  \<comment> \<open>\<^verbatim>\<open>a > b\<close> on dates: false when either is invalid\<close>
  "date_gt a b = (case (a, b) of (Some x, Some y) \<Rightarrow> x > y | _ \<Rightarrow> False)"

definition try_parse_date :: "world \<Rightarrow> json option \<Rightarrow> js_error + int option" where
  \<comment> \<open>the parsing part of \<open>validateAndFixDate\<close>: \<^verbatim>\<open>new Date(dateString)\<close> may throw,
      and \<^verbatim>\<open>dateString.match\<close> is a \<^verbatim>\<open>TypeError\<close> on a value that is not a string\<close>
  "try_parse_date w dateString =
     (case new_Date_value (w_date_parse w) dateString of
        Inl e \<Rightarrow> Inl e
      | Inr (Some t) \<Rightarrow> Inr (Some t)
      | Inr None \<Rightarrow>
          (case dateString of
             Some (JStr s) \<Rightarrow> Inr (reparse_formats s)
           | _ \<Rightarrow> Inl (TypeError (js ''dateString.match is not a function''))))"

definition validateAndFixDate :: "world \<Rightarrow> rat \<Rightarrow> json option \<Rightarrow> jsstring \<Rightarrow> DateResult" where
  "validateAndFixDate w rnd dateString filename =
     (let today = w_now w
      in case try_parse_date w dateString of
           Inl e \<Rightarrow> generateReasonableDate today rnd filename
         | Inr parsedDate \<Rightarrow>
             if parsedDate = None \<or> date_gt parsedDate (Some (tomorrow today))
                \<or> date_gt (oneYearAgo today) parsedDate
             then generateReasonableDate today rnd filename
             else \<lparr>date = iso_date (the parsedDate), confidence = (js ''high'')\<rparr>)"


record merchantPattern =
  pattern :: jsstring
  name :: jsstring
  mp_category :: jsstring
  avgAmount :: "rat \<times> rat"

definition mp :: "jsstring \<Rightarrow> jsstring \<Rightarrow> jsstring \<Rightarrow> rat \<Rightarrow> rat \<Rightarrow> merchantPattern" where
  "mp p n c lo hi = \<lparr>pattern = p, name = n, mp_category = c, avgAmount = (lo, hi)\<rparr>"

definition merchantPatterns :: "merchantPattern list" where
  "merchantPatterns =
     [mp (js ''starbucks'') (js ''Starbucks'') (js ''Meals'') 4 12,
      mp (js ''coffee'') (js ''Coffee Shop'') (js ''Meals'') 3 8,
      mp (js ''dunkin'') (js ''Dunkin'') (js ''Meals'') 3 10,
      mp (js ''mcdonald'') (js ''McDonald's'') (js ''Meals'') 5 15,
      mp (js ''subway'') (js ''Subway'') (js ''Meals'') 8 15,
      mp (js ''chipotle'') (js ''Chipotle'') (js ''Meals'') 10 18,
      mp (js ''panera'') (js ''Panera Bread'') (js ''Meals'') 8 20,
      mp (js ''pizza'') (js ''Pizza Place'') (js ''Meals'') 12 25,
      mp (js ''restaurant'') (js ''Restaurant'') (js ''Meals'') 15 50,
      mp (js ''diner'') (js ''Diner'') (js ''Meals'') 8 25,
      mp (js ''uber'') (js ''Uber'') (js ''Travel'') 8 35,
      mp (js ''lyft'') (js ''Lyft'') (js ''Travel'') 8 35,
      mp (js ''taxi'') (js ''Taxi'') (js ''Travel'') 10 40,
      mp (js ''shell'') (js ''Shell'') (js ''Travel'') 25 80,
      mp (js ''exxon'') (js ''ExxonMobil'') (js ''Travel'') 25 80,
      mp (js ''chevron'') (js ''Chevron'') (js ''Travel'') 25 80,
      mp (js ''bp'') (js ''BP'') (js ''Travel'') 25 80,
      mp (js ''gas'') (js ''Gas Station'') (js ''Travel'') 30 70,
      mp (js ''hotel'') (js ''Hotel'') (js ''Travel'') 80 300,
      mp (js ''motel'') (js ''Motel'') (js ''Travel'') 50 150,
      mp (js ''marriott'') (js ''Marriott'') (js ''Travel'') 100 400,
      mp (js ''hilton'') (js ''Hilton'') (js ''Travel'') 100 400,
      mp (js ''delta'') (js ''Delta Air Lines'') (js ''Travel'') 200 800,
      mp (js ''american'') (js ''American Airlines'') (js ''Travel'') 200 800,
      mp (js ''southwest'') (js ''Southwest Airlines'') (js ''Travel'') 150 600,
      mp (js ''united'') (js ''United Airlines'') (js ''Travel'') 200 800,
      mp (js ''parking'') (js ''Parking'') (js ''Travel'') 5 30,
      mp (js ''office'') (js ''Office Depot'') (js ''Supplies'') 15 100,
      mp (js ''staples'') (js ''Staples'') (js ''Supplies'') 15 100,
      mp (js ''depot'') (js ''Office Depot'') (js ''Supplies'') 15 100,
      mp (js ''amazon'') (js ''Amazon'') (js ''Supplies'') 10 200,
      mp (js ''best buy'') (js ''Best Buy'') (js ''Supplies'') 20 500,
      mp (js ''costco'') (js ''Costco'') (js ''Supplies'') 50 300,
      mp (js ''walmart'') (js ''Walmart'') (js ''Supplies'') 10 150,
      mp (js ''target'') (js ''Target'') (js ''Supplies'') 15 200,
      mp (js ''fedex'') (js ''FedEx Office'') (js ''Supplies'') 5 50,
      mp (js ''ups'') (js ''UPS Store'') (js ''Supplies'') 5 50,
      mp (js ''print'') (js ''Print Shop'') (js ''Supplies'') 5 40]"

definition matchedMerchant :: "world \<Rightarrow> jsstring \<Rightarrow> merchantPattern option" where
  "matchedMerchant w filename =
     find (\<lambda>e. includes_str (toLowerCase (w_toLowerCase w) filename) (pattern e)) merchantPatterns"

definition amount_range :: "merchantPattern option \<Rightarrow> rat \<times> rat" where
  \<comment> \<open>\<^verbatim>\<open>const [min = 5, max = 50] = matchedMerchant?.avgAmount || [5, 50]\<close>\<close>
  "amount_range m = (case m of None \<Rightarrow> (5, 50) | Some e \<Rightarrow> avgAmount e)"

definition synth_amount :: "rat \<Rightarrow> rat \<Rightarrow> rat \<Rightarrow> rat \<Rightarrow> rat" where
  \<comment> \<open>\<^verbatim>\<open>Math.round((Math.random() * (max - min) + min + Math.random()) * 100) / 100\<close>\<close>
  "synth_amount lo hi r1 r2 = of_int (Math_round ((r1 * (hi - lo) + lo + r2) * 100)) / 100"

definition enhancedPatternExtraction :: "world \<Rightarrow> jsstring \<Rightarrow> ExtractedData" where
  "enhancedPatternExtraction w filename =
     (let m = matchedMerchant w filename;
          (lo, hi) = amount_range m;
          amt = synth_amount lo hi (w_random w 0) (w_random w 1);
          dateResult = generateReasonableDate (w_now w) (w_random w 2) filename
      in \<lparr>merchant_name =
             (case m of
                None \<Rightarrow> (js ''Unknown Merchant'')
              | Some e \<Rightarrow> if name e = [] then (js ''Unknown Merchant'') else name e),
          amount = Fin amt,
          category =
            (case m of
               None \<Rightarrow> (js ''Other'')
             | Some e \<Rightarrow> if mp_category e = [] then (js ''Other'') else mp_category e),
          receipt_date = date dateResult,
          confidence = DateResult.confidence dateResult,
          date_source = (js ''estimated''),
          extraction_notes = None,
          currency = None\<rparr>)"

definition json_object_rx :: "rx_item list" where
  \<comment> \<open>\<^verbatim>\<open>/\{[\s\S]*\}/\<close>: from the first opening brace to the last closing brace\<close>
  "json_object_rx = [lit (ch CHR ''{''), star (\<lambda>c. True), lit (ch CHR ''}'')]"

definition coerce_category :: "json option \<Rightarrow> jsstring" where
  \<comment> \<open>\<^verbatim>\<open>["Meals", "Travel", "Supplies", "Other"].includes(c) ? c : "Other"\<close>\<close>
  "coerce_category c =
     (case c of
        Some (JStr s) \<Rightarrow> if s \<in> set [(js ''Meals''), (js ''Travel''), (js ''Supplies''), (js ''Other'')] then s else (js ''Other'')
      | _ \<Rightarrow> (js ''Other''))"

definition coerce_confidence :: "json option \<Rightarrow> jsstring" where
  \<comment> \<open>\<^verbatim>\<open>["high", "medium", "low"].includes(c) ? c : "medium"\<close>\<close>
  "coerce_confidence c =
     (case c of
        Some (JStr s) \<Rightarrow> if s \<in> set [(js ''high''), (js ''medium''), (js ''low'')] then s else (js ''medium'')
      | _ \<Rightarrow> (js ''medium''))"

definition validate_reply :: "world \<Rightarrow> json \<Rightarrow> jsstring \<Rightarrow> js_error + ExtractedData" where
  \<comment> \<open>the object literal \<open>validatedData\<close>, built from the parsed reply \<open>extractedData\<close>,
      field by field in the order of the source: reading the first property of
      \<^verbatim>\<open>null\<close> throws a \<^verbatim>\<open>TypeError\<close>, then \<^verbatim>\<open>String(...)\<close> and
      \<^verbatim>\<open>parseFloat(...)\<close> may throw\<close>
  "validate_reply w extractedData filename =
     (if extractedData = JNull then Inl (TypeError (js ''Cannot read properties of null''))
      else
        (case (if truthy (get_prop extractedData (js ''merchant_name''))
               then value_toString (get_prop extractedData (js ''merchant_name''))
               else Inr (js ''Unknown Merchant'')) of
           Inl e \<Rightarrow> Inl e
         | Inr merchantText \<Rightarrow>
             (case parseFloat_value (get_prop extractedData (js ''amount'')) of
                Inl e \<Rightarrow> Inl e
              | Inr amountValue \<Rightarrow>
                  Inr \<lparr>merchant_name = trim merchantText,
                       amount = jsnum_or amountValue (Fin 0),
                       category = coerce_category (get_prop extractedData (js ''category'')),
                       receipt_date =
                         date (validateAndFixDate w (w_random w 0)
                                 (get_prop extractedData (js ''receipt_date'')) filename),
                       confidence = coerce_confidence (get_prop extractedData (js ''confidence'')),
                       date_source = (js ''ai_vision''),
                       extraction_notes =
                         (if truthy (get_prop extractedData (js ''extraction_notes''))
                          then get_prop extractedData (js ''extraction_notes'')
                          else Some (JStr (js ''Extracted using AI vision''))),
                       currency = None\<rparr>)))"

definition locate_json :: "jsstring \<Rightarrow> jsstring" where
  \<comment> \<open>the text handed to \<^verbatim>\<open>JSON.parse\<close>: the match of the brace pattern in the trimmed
      content, or the whole trimmed content when there is no match\<close>
  "locate_json content =
     (let cleanContent = trim content
      in case rx_exec json_object_rx cleanContent of
           Some groups \<Rightarrow> concat groups
         | None \<Rightarrow> cleanContent)"

definition parse_vision_content :: "world \<Rightarrow> jsstring \<Rightarrow> jsstring \<Rightarrow> js_error + ExtractedData" where
  \<comment> \<open>the inner \<^verbatim>\<open>try\<close> of \<open>aiOCRExtraction\<close>: any error in it is thrown again as
      \<^verbatim>\<open>Invalid JSON response from vision API\<close>\<close>
  "parse_vision_content w content filename =
     (case JSON_parse (locate_json content) of
        None \<Rightarrow> Inl (Error (js ''Invalid JSON response from vision API''))
      | Some extractedData \<Rightarrow>
          (case validate_reply w extractedData filename of
             Inl e \<Rightarrow> Inl (Error (js ''Invalid JSON response from vision API''))
           | Inr validatedData \<Rightarrow> Inr validatedData))"

definition call_vision :: "world \<Rightarrow> jsstring \<Rightarrow> jsstring \<Rightarrow> js_error + api_response" where
  \<comment> \<open>the request under \<open>withKeyProtection\<close>: \<open>SecureKeyStore.getKey\<close> throws when the
      key is absent or empty\<close>
  "call_vision w base64Image filename =
     (case w_openai_key w of
        None \<Rightarrow> Inl (Error (js ''Key openai not found''))
      | Some k \<Rightarrow>
          if k = [] then Inl (Error (js ''Key openai not found''))
          else w_vision w base64Image filename)"

definition vision_attempt :: "world \<Rightarrow> jsstring \<Rightarrow> jsstring \<Rightarrow> js_error + ExtractedData" where
  \<comment> \<open>the outer \<^verbatim>\<open>try\<close> block of \<open>aiOCRExtraction\<close>\<close>
  "vision_attempt w fileUrl filename =
     (case imageUrlToBase64 w fileUrl of
        Inl e \<Rightarrow> Inl e
      | Inr base64Image \<Rightarrow>
          (case call_vision w base64Image filename of
             Inl e \<Rightarrow> Inl e
           | Inr NoMessage \<Rightarrow> Inl (Error (js ''Invalid vision API response format''))
           | Inr (Message None) \<Rightarrow> Inl (Error (js ''No content in OpenAI response''))
           | Inr (Message (Some content)) \<Rightarrow>
               if content = [] then Inl (Error (js ''No content in OpenAI response''))
               else parse_vision_content w content filename))"

definition aiOCRExtraction :: "world \<Rightarrow> jsstring \<Rightarrow> jsstring \<Rightarrow> js_error + ExtractedData" where
  \<comment> \<open>the promise that \<open>aiOCRExtraction\<close> returns: \<open>Inr\<close> when it is fulfilled, \<open>Inl\<close>
      when it is rejected\<close>
  "aiOCRExtraction w fileUrl filename =
     (case vision_attempt w fileUrl filename of
        Inr validatedData \<Rightarrow> Inr validatedData
      | Inl error \<Rightarrow> Inr (enhancedPatternExtraction w filename))"

record CurrencyData =
  amount :: jsnum
  currency :: jsstring
  symbol :: jsstring

definition amount_rx :: "rx_item list" where
  \<comment> \<open>\<^verbatim>\<open>/(\d+\.?\d*)/\<close>\<close>
  "amount_rx = [plus is_digit, opt (\<lambda>c. c = (ch CHR ''.'')), star is_digit]"

definition is_currency_symbol :: "nat \<Rightarrow> bool" where
  \<comment> \<open>the class of the five currency signs: dollar, euro, pound, yen, rupee\<close>
  "is_currency_symbol c =
     (c = (ch CHR ''$'') \<or> c = 0x20AC \<or> c = 0xA3 \<or> c = 0xA5 \<or> c = 0x20B9)"

definition symbolMap :: "nat \<Rightarrow> jsstring" where
  "symbolMap c =
     (if c = (ch CHR ''$'') then (js ''USD'') else if c = 0x20AC then (js ''EUR'')
      else if c = 0xA3 then (js ''GBP'') else if c = 0xA5 then (js ''JPY'') else (js ''INR''))"

definition amount_toString :: "jsstring + jsnum \<Rightarrow> jsstring" where
  \<comment> \<open>\<^verbatim>\<open>String(amount)\<close> for an argument of the type \<^verbatim>\<open>string | number\<close>\<close>
  "amount_toString a = (case a of Inl s \<Rightarrow> s | Inr n \<Rightarrow> Number_toString n)"

definition normalizeCurrency :: "jsstring + jsnum \<Rightarrow> jsstring \<Rightarrow> CurrencyData" where
  \<comment> \<open>the first argument is a string (\<open>Inl\<close>) or a number (\<open>Inr\<close>)\<close>
  "normalizeCurrency amt cur =
     (let text = amount_toString amt;
          numericValue =
            (case rx_exec amount_rx text of
               None \<Rightarrow> Fin 0
             | Some groups \<Rightarrow> parseFloat (concat groups));
          symbolMatch = find is_currency_symbol text
      in \<lparr>amount = numericValue,
          currency =
            (case symbolMatch of
               None \<Rightarrow> cur
             | Some c \<Rightarrow> if symbolMap c = [] then cur else symbolMap c),
          symbol = (case symbolMatch of None \<Rightarrow> (js ''$'') | Some c \<Rightarrow> [c])\<rparr>)"

definition trip_rx :: "rx_item list" where
  \<comment> \<open>\<^verbatim>\<open>/\*TRIP.*$/i\<close>\<close>
  "trip_rx =
     [lit (ch CHR ''*''), lit_ci (ch CHR ''T''), lit_ci (ch CHR ''R''), lit_ci (ch CHR ''I''),
      lit_ci (ch CHR ''P''), star is_dot, Eoi]"

definition asterisk_rx :: "rx_item list" where
  \<comment> \<open>\<^verbatim>\<open>/\s+\*\s*.*$/i\<close>\<close>
  "asterisk_rx = [plus is_space, lit (ch CHR ''*''), star is_space, star is_dot, Eoi]"

definition store_number_rx :: "rx_item list" where
  \<comment> \<open>\<^verbatim>\<open>/\s+#\d+.*$/i\<close>\<close>
  "store_number_rx = [plus is_space, lit (ch CHR ''#''), plus is_digit, star is_dot, Eoi]"

definition four_digit_rx :: "rx_item list" where
  \<comment> \<open>\<^verbatim>\<open>/\s+\d{4}.*$/i\<close>\<close>
  "four_digit_rx = [plus is_space, Rep is_digit 4 (Some 4), star is_dot, Eoi]"

definition location_rx :: "rx_item list" where
  \<comment> \<open>\<^verbatim>\<open>/\s+-\s+.*$/i\<close>\<close>
  "location_rx = [plus is_space, lit (ch CHR ''-''), plus is_space, star is_dot, Eoi]"

fun collapse_spaces :: "bool \<Rightarrow> jsstring \<Rightarrow> jsstring" where
  \<comment> \<open>\<^verbatim>\<open>replace(/\s+/g, " ")\<close>; the flag says that the previous character was white space\<close>
  "collapse_spaces prev [] = []"
| "collapse_spaces prev (c # cs) =
     (if is_space c then (if prev then collapse_spaces True cs else (ch CHR '' '') # collapse_spaces True cs)
      else c # collapse_spaces False cs)"

fun title_case :: "bool \<Rightarrow> jsstring \<Rightarrow> jsstring" where
  \<comment> \<open>\<^verbatim>\<open>replace(/\b\w/g, (l) => l.toUpperCase())\<close>; the flag says that the previous
      character was a word character\<close>
  "title_case prev [] = []"
| "title_case prev (c # cs) =
     (if is_word c \<and> \<not> prev then upper_char c else c) # title_case (is_word c) cs"

definition strip_noise :: "jsstring \<Rightarrow> jsstring" where
  \<comment> \<open>the five replacements of \<open>normalizeMerchant\<close> and the \<^verbatim>\<open>trim\<close>\<close>
  "strip_noise merchantName =
     trim (rx_replace location_rx [] (rx_replace four_digit_rx [] (rx_replace store_number_rx []
       (rx_replace asterisk_rx [] (rx_replace trip_rx [] merchantName)))))"

definition normalizeMerchant :: "jsstring \<Rightarrow> jsstring" where
  "normalizeMerchant merchantName =
     (if merchantName = [] then (js ''Unknown Merchant'')
      else
        (let normalized = title_case False (collapse_spaces False (strip_noise merchantName))
         in if normalized = [] then (js ''Unknown Merchant'') else normalized))"

definition ymd_dash_rx :: "rx_item list" where
  \<comment> \<open>\<^verbatim>\<open>/(\d{4})-(\d{1,2})-(\d{1,2})/\<close>\<close>
  "ymd_dash_rx =
     [Rep is_digit 4 (Some 4), lit (ch CHR ''-''), Rep is_digit 1 (Some 2), lit (ch CHR ''-''),
      Rep is_digit 1 (Some 2)]"

definition slash_mdy2 :: "rx_item list" where
  \<comment> \<open>\<^verbatim>\<open>/(\d{1,2})\/(\d{1,2})\/(\d{2})/\<close>\<close>
  "slash_mdy2 =
     [Rep is_digit 1 (Some 2), lit (ch CHR ''/''), Rep is_digit 1 (Some 2), lit (ch CHR ''/''),
      Rep is_digit 2 (Some 2)]"

definition dash_mdy2 :: "rx_item list" where
  \<comment> \<open>\<^verbatim>\<open>/(\d{1,2})-(\d{1,2})-(\d{2})/\<close>\<close>
  "dash_mdy2 =
     [Rep is_digit 1 (Some 2), lit (ch CHR ''-''), Rep is_digit 1 (Some 2), lit (ch CHR ''-''),
      Rep is_digit 2 (Some 2)]"

definition two_digit_year :: "nat \<Rightarrow> nat" where
  "two_digit_year y = (if y < 50 then 2000 + y else 1900 + y)"

definition format_date :: "nat \<Rightarrow> jsstring list \<Rightarrow> int option" where
  \<comment> \<open>the date that \<open>parseDateRobust\<close> builds from the groups of format number \<open>k\<close>\<close>
  "format_date k groups =
     (case groups of
        [a, _, b, _, c] \<Rightarrow>
          if k = 0 then
            new_Date_ymd (int (digits_val a)) (int (digits_val b) - 1) (int (digits_val c))
          else if k = 1 \<or> k = 2 then
            new_Date_ymd (int (digits_val c)) (int (digits_val a) - 1) (int (digits_val b))
          else
            new_Date_ymd (int (two_digit_year (digits_val c))) (int (digits_val a) - 1)
              (int (digits_val b))
      | _ \<Rightarrow> None)"

fun try_formats :: "nat \<Rightarrow> rx_item list list \<Rightarrow> jsstring \<Rightarrow> jsstring option" where
  \<comment> \<open>the loop of \<open>parseDateRobust\<close> over its formats, from format number \<open>k\<close> on\<close>
  "try_formats k [] dateString = None"
| "try_formats k (format # formats) dateString =
     (case rx_exec format dateString of
        None \<Rightarrow> try_formats (Suc k) formats dateString
      | Some groups \<Rightarrow>
          (case format_date k groups of
             Some t \<Rightarrow> Some (iso_date t)
           | None \<Rightarrow> try_formats (Suc k) formats dateString))"

definition parseDateRobust :: "jsstring \<Rightarrow> jsstring option" where
  "parseDateRobust dateString =
     (if dateString = [] then None
      else try_formats 0 [ymd_dash_rx, slash_mdy, dash_mdy, slash_mdy2, dash_mdy2] dateString)"

definition ninetyDaysAgo :: "int \<Rightarrow> int option" where
  "ninetyDaysAgo today = setDate today (getDate today - 90)"

definition findFirst :: "world \<Rightarrow> (receipt \<Rightarrow> bool) \<Rightarrow> js_error + receipt option" where
  \<comment> \<open>\<^verbatim>\<open>prisma.receipt.findFirst\<close> with a filter: a matching row, or the error of the
      persistence layer\<close>
  "findFirst w flt =
     (case w_receipts w of
        Inl e \<Rightarrow> Inl e
      | Inr rows \<Rightarrow> Inr (find flt rows))"

definition duplicate_query :: "world \<Rightarrow> int \<Rightarrow> jsstring \<Rightarrow> jsnum \<Rightarrow> jsstring \<Rightarrow> js_error + receipt option" where
  \<comment> \<open>the \<^verbatim>\<open>try\<close> block of \<open>checkForDuplicate\<close>; an invalid date is refused by the
      query builder\<close>
  "duplicate_query w uid merchant amt dt =
     (case (ninetyDaysAgo (w_now w), Date_parse (w_date_parse w) dt) of
        (Some since, Some rd) \<Rightarrow>
          findFirst w (\<lambda>r. r_userId r = uid \<and> r_merchantName r = merchant \<and> r_amount r = amt
                           \<and> r_receiptDate r = rd \<and> r_createdAt r > since)
      | _ \<Rightarrow> Inl (Error (js ''Invalid value provided. Expected DateTime'')))"

definition checkForDuplicate :: "world \<Rightarrow> int \<Rightarrow> jsstring \<Rightarrow> jsnum \<Rightarrow> jsstring \<Rightarrow> bool" where
  "checkForDuplicate w uid merchant amt dt =
     (case duplicate_query w uid merchant amt dt of
        Inl error \<Rightarrow> False
      | Inr duplicate \<Rightarrow> duplicate \<noteq> None)"

record OriginalData =
  merchant :: jsstring
  amount :: jsnum
  date :: jsstring
  confidence :: jsstring

record ProcessedData =
  merchant_name :: jsstring
  amount :: jsnum
  currency :: jsstring
  receipt_date :: jsstring
  category :: jsstring
  confidence :: rat
  needs_review :: bool
  is_duplicate :: bool
  date_iso :: jsstring
  extraction_notes :: json
  original_data :: OriginalData

definition confidence_score :: "jsstring \<Rightarrow> rat" where
  \<comment> \<open>\<^verbatim>\<open>c === "high" ? 0.9 : c === "medium" ? 0.7 : 0.5\<close>\<close>
  "confidence_score c = (if c = (js ''high'') then 0.9 else if c = (js ''medium'') then 0.7 else 0.5)"

definition process_extracted :: "world \<Rightarrow> int \<Rightarrow> ExtractedData \<Rightarrow> ProcessedData" where
  \<comment> \<open>the post-processing of the handler \<open>POST\<close>, from the extracted record on; the
      field \<open>extraction_notes\<close> of an extracted record is \<open>None\<close> when the record has no
      such key, as on the fallback path\<close>
  "process_extracted w uid extractedData =
     (let normalizedMerchant = normalizeMerchant (ExtractedData.merchant_name extractedData);
          currencyData = normalizeCurrency (Inr (ExtractedData.amount extractedData)) (js ''USD'');
          normalizedDate =
            (case parseDateRobust (ExtractedData.receipt_date extractedData) of
               Some d \<Rightarrow> if d = [] then ExtractedData.receipt_date extractedData else d
             | None \<Rightarrow> ExtractedData.receipt_date extractedData);
          isDuplicate =
            checkForDuplicate w uid normalizedMerchant (CurrencyData.amount currencyData)
              normalizedDate;
          score = confidence_score (ExtractedData.confidence extractedData);
          needsReview = (score < 0.72)
      in \<lparr>merchant_name = normalizedMerchant,
          amount = CurrencyData.amount currencyData,
          currency = CurrencyData.currency currencyData,
          receipt_date = normalizedDate,
          category = ExtractedData.category extractedData,
          confidence = score,
          needs_review = needsReview,
          is_duplicate = isDuplicate,
          date_iso = normalizedDate,
          extraction_notes =
            (case ExtractedData.extraction_notes extractedData of
               Some notes \<Rightarrow> notes
             | None \<Rightarrow> JStr (js ''Processed with enhanced normalization'')),
          original_data =
            \<lparr>merchant = ExtractedData.merchant_name extractedData,
             amount = ExtractedData.amount extractedData,
             date = ExtractedData.receipt_date extractedData,
             confidence = ExtractedData.confidence extractedData\<rparr>\<rparr>)"


subsection \<open>Sample inputs\<close>

text \<open>
  Concrete worlds on which the properties below are evaluated. The clock stands at
  2026-11-02T10:00:00Z; the image is fetched and the model answers with the given reply.
\<close>

definition reply_uber :: jsstring where
  \<open>reply_uber = js ''Here is the data: {"merchant_name":"UBER","amount":"12.50","category":"Travel","receipt_date":"2099-01-01","confidence":"high"}''\<close>



definition reply_refund :: jsstring where
  \<open>reply_refund = js ''{"merchant_name":"Target","amount":-5,"category":"Supplies","receipt_date":"2026-10-30","confidence":"high"}''\<close>

definition sample_world :: "jsstring \<Rightarrow> world" where
  "sample_world reply =
     \<lparr>w_now = 1793613600000,
      w_random = (\<lambda>k. if k = 0 then 99 / 100 else if k = 1 then 99 / 100 else 1 / 2),
      w_fetch = (\<lambda>url. Inr \<lparr>ok = True, status = 200, content_type = Some (js ''image/png''),
                              body_base64 = js ''iVBORw0KGgo=''\<rparr>),
      w_openai_key = Some (js ''sk-test''),
      w_vision = (\<lambda>img fn. Inr (Message (Some reply))),
      w_date_parse = (\<lambda>s. None),
      w_toLowerCase = (\<lambda>s. s),
      w_receipts =
        Inr [\<lparr>r_userId = 7, r_merchantName = js ''UBER'', r_amount = Fin 12.5,
              r_receiptDate = 1792454400000, r_createdAt = 1793000000000\<rparr>]\<rparr>"

definition offline_world :: world where
  \<comment> \<open>the image cannot be fetched\<close>
  "offline_world = (sample_world [])\<lparr>w_fetch := (\<lambda>url. Inl (Error (js ''fetch failed'')))\<rparr>"

definition db_down_world :: world where
  \<comment> \<open>the receipt table cannot be queried\<close>
  "db_down_world = (sample_world reply_uber)\<lparr>w_receipts := Inl (Error (js ''connection refused''))\<rparr>"

definition two_line_name :: jsstring where
  \<comment> \<open>a merchant name of two lines: \<^verbatim>\<open>A #1\<close>, a line feed, \<^verbatim>\<open>B\<close>\<close>
  "two_line_name = js ''A #1'' @ [0x0A] @ js ''B''"

definition uber_json :: json where
  \<comment> \<open>the object that \<open>reply_uber\<close> wraps\<close>
  "uber_json =
     JObj [(js ''merchant_name'', JStr (js ''UBER'')), (js ''amount'', JStr (js ''12.50'')),
           (js ''category'', JStr (js ''Travel'')), (js ''receipt_date'', JStr (js ''2099-01-01'')),
           (js ''confidence'', JStr (js ''high''))]"

definition uber_record :: ExtractedData where
  "uber_record =
     \<lparr>ExtractedData.merchant_name = js ''UBER'', ExtractedData.amount = Fin 12.5,
      ExtractedData.category = js ''Travel'', ExtractedData.receipt_date = js ''2026-10-20'',
      ExtractedData.confidence = js ''high'', date_source = js ''ai_vision'',
      ExtractedData.extraction_notes = Some (JStr (js ''Extracted using AI vision'')),
      ExtractedData.currency = None\<rparr>"



definition refund_json :: json where
  "refund_json =
     JObj [(js ''merchant_name'', JStr (js ''Target'')), (js ''amount'', JNum (Fin (- 5))),
           (js ''category'', JStr (js ''Supplies'')), (js ''receipt_date'', JStr (js ''2026-10-30'')),
           (js ''confidence'', JStr (js ''high''))]"

definition refund_record :: ExtractedData where
  "refund_record =
     \<lparr>ExtractedData.merchant_name = js ''Target'', ExtractedData.amount = Fin (- 5),
      ExtractedData.category = js ''Supplies'', ExtractedData.receipt_date = js ''2026-10-30'',
      ExtractedData.confidence = js ''high'', date_source = js ''ai_vision'',
      ExtractedData.extraction_notes = Some (JStr (js ''Extracted using AI vision'')),
      ExtractedData.currency = None\<rparr>"

definition sample_image :: jsstring where
  \<comment> \<open>the data URL of the image that the sample worlds serve\<close>
  "sample_image = js ''data:image/png;base64,iVBORw0KGgo=''"

section \<open>Properties\<close>

subsection \<open>Confidence score and review flag\<close>

lemma confidence_score_cases:
  "confidence_score c = 0.9 \<and> c = (js ''high'') \<or> confidence_score c = 0.7 \<and> c = (js ''medium'')
   \<or> confidence_score c = 0.5 \<and> c \<noteq> (js ''high'') \<and> c \<noteq> (js ''medium'')"
  by (simp add: confidence_score_def)

text \<open>
  C3. For every extracted record, the numeric confidence that the handler reports is
  0.9 for \<open>high\<close>, 0.7 for \<open>medium\<close> and 0.5 otherwise, hence one of the three values; the
  review flag is set exactly when that score is below 0.72, which is exactly when the
  categorical confidence is not \<open>high\<close>.
\<close>

theorem confidence_score_and_review:
  "ProcessedData.confidence (process_extracted w uid e)
     = (if ExtractedData.confidence e = (js ''high'') then 0.9
        else if ExtractedData.confidence e = (js ''medium'') then 0.7 else 0.5)
   \<and> ProcessedData.confidence (process_extracted w uid e) \<in> {0.9, 0.7, 0.5}
   \<and> needs_review (process_extracted w uid e)
       = (ProcessedData.confidence (process_extracted w uid e) < 0.72)
   \<and> needs_review (process_extracted w uid e) = (ExtractedData.confidence e \<noteq> (js ''high''))"
  by (simp add: process_extracted_def confidence_score_def Let_def)

subsection \<open>The path through the vision model\<close>




lemma validate_reply_Inr:
  "validate_reply w v filename = Inr r \<Longrightarrow>
   v \<noteq> JNull
   \<and> ExtractedData.date_source r = js ''ai_vision''
   \<and> ExtractedData.confidence r = coerce_confidence (get_prop v (js ''confidence''))
   \<and> ExtractedData.category r = coerce_category (get_prop v (js ''category''))
   \<and> (\<exists>a. parseFloat_value (get_prop v (js ''amount'')) = Inr a
          \<and> ExtractedData.amount r = jsnum_or a (Fin 0))
   \<and> ExtractedData.receipt_date r
       = DateResult.date (validateAndFixDate w (w_random w 0) (get_prop v (js ''receipt_date'')) filename)"
  by (auto simp: validate_reply_def split: if_splits sum.splits)

lemma vision_attempt_reply:
  assumes "imageUrlToBase64 w fileUrl = Inr img"
    and "call_vision w img filename = Inr (Message (Some content))"
    and "JSON_parse (locate_json content) = Some v"
  shows "vision_attempt w fileUrl filename
         = (if content = [] then Inl (Error (js ''No content in OpenAI response''))
            else case validate_reply w v filename of
                   Inl e \<Rightarrow> Inl (Error (js ''Invalid JSON response from vision API''))
                 | Inr r \<Rightarrow> Inr r)"
  using assms by (simp add: vision_attempt_def parse_vision_content_def)

lemma vision_attempt_reply_Inr:
  assumes "imageUrlToBase64 w fileUrl = Inr img"
    and "call_vision w img filename = Inr (Message (Some content))"
    and "JSON_parse (locate_json content) = Some v"
    and "vision_attempt w fileUrl filename = Inr r"
  shows "validate_reply w v filename = Inr r"
  using assms(4) unfolding vision_attempt_reply [OF assms(1-3)]
  by (auto split: if_splits sum.splits)

lemma JSON_parse_empty: "JSON_parse (locate_json []) = None"
  by code_simp



lemma aiOCRExtraction_of_Inr:
  "vision_attempt w fileUrl filename = Inr r \<Longrightarrow> aiOCRExtraction w fileUrl filename = Inr r"
  by (simp add: aiOCRExtraction_def)


subsection \<open>The sample replies\<close>

lemma sample_fetch:
  "imageUrlToBase64 (sample_world reply) url = Inr sample_image"
  by (simp add: imageUrlToBase64_def sample_world_def startsWith_def sample_image_def)

lemma sample_call:
  "call_vision (sample_world reply) img filename = Inr (Message (Some reply))"
  by (simp add: call_vision_def sample_world_def)

lemma sample_vision_attempt:
  assumes "JSON_parse (locate_json reply) = Some v"
  shows "vision_attempt (sample_world reply) url filename
         = (case validate_reply (sample_world reply) v filename of
              Inl e \<Rightarrow> Inl (Error (js ''Invalid JSON response from vision API''))
            | Inr r \<Rightarrow> Inr r)"
proof -
  from assms have "reply \<noteq> []"
    using JSON_parse_empty by auto
  then show ?thesis
    unfolding vision_attempt_reply [OF sample_fetch sample_call assms] by simp
qed

lemma uber_parse: "JSON_parse (locate_json reply_uber) = Some uber_json"
  by code_simp

lemma uber_validate:
  "validate_reply (sample_world reply_uber) uber_json (js ''receipt.jpg'') = Inr uber_record"
  by code_simp

lemma uber_attempt:
  "vision_attempt (sample_world reply_uber) url (js ''receipt.jpg'') = Inr uber_record"
  unfolding sample_vision_attempt [OF uber_parse] uber_validate by simp





lemma refund_parse: "JSON_parse (locate_json reply_refund) = Some refund_json"
  by code_simp

lemma refund_validate:
  "validate_reply (sample_world reply_refund) refund_json (js ''receipt.jpg'') = Inr refund_record"
  by code_simp

lemma refund_attempt:
  "vision_attempt (sample_world reply_refund) url (js ''receipt.jpg'') = Inr refund_record"
  unfolding sample_vision_attempt [OF refund_parse] refund_validate by simp


subsection \<open>The extraction step never raises\<close>

text \<open>
  C2. For every file URL and file name the promise of \<open>aiOCRExtraction\<close> is fulfilled
  with a record. When the attempt through the vision model fails, whatever the error
  (the fetch, the request to the model, the parse of the reply), the record is the one of
  the pattern fallback.
\<close>

theorem extraction_never_raises:
  "(\<exists>r. aiOCRExtraction w fileUrl filename = Inr r)
   \<and> (\<forall>e. vision_attempt w fileUrl filename = Inl e
        \<longrightarrow> aiOCRExtraction w fileUrl filename = Inr (enhancedPatternExtraction w filename))
   \<and> (\<forall>e. w_fetch w fileUrl = Inl e
        \<longrightarrow> aiOCRExtraction w fileUrl filename = Inr (enhancedPatternExtraction w filename))
   \<and> (\<forall>img e. imageUrlToBase64 w fileUrl = Inr img \<and> call_vision w img filename = Inl e
        \<longrightarrow> aiOCRExtraction w fileUrl filename = Inr (enhancedPatternExtraction w filename))
   \<and> (\<forall>img content. imageUrlToBase64 w fileUrl = Inr img
          \<and> call_vision w img filename = Inr (Message (Some content))
          \<and> JSON_parse (locate_json content) = None
        \<longrightarrow> aiOCRExtraction w fileUrl filename = Inr (enhancedPatternExtraction w filename))"
  by (auto simp: aiOCRExtraction_def vision_attempt_def imageUrlToBase64_def
        parse_vision_content_def split: sum.splits)

theorem extraction_never_raises_witness:
  "w_fetch offline_world (js ''https://files/r.png'') = Inl (Error (js ''fetch failed''))
   \<and> aiOCRExtraction offline_world (js ''https://files/r.png'') (js ''receipt.jpg'')
       = Inr (enhancedPatternExtraction offline_world (js ''receipt.jpg''))"
proof -
  have h: "w_fetch offline_world (js ''https://files/r.png'') = Inl (Error (js ''fetch failed''))"
    by (simp add: offline_world_def)
  show ?thesis
    using h extraction_never_raises [of offline_world "(js ''https://files/r.png'')" "(js ''receipt.jpg'')"]
    by blast
qed

subsection \<open>Category\<close>










subsection \<open>Duplicate detection\<close>

lemma month_of_day_range: "0 \<le> month_of_day d l \<and> month_of_day d l \<le> 11"
  by (simp add: month_of_day_def)

lemma MakeDay_of_fields:
  "MakeDay (YearFromTime t) (MonthFromTime t) (DateFromTime t - k) = Day t - k"
proof -
  let ?m = "MonthFromTime t"
  have r: "0 \<le> ?m \<and> ?m \<le> 11"
    unfolding MonthFromTime_def by (rule month_of_day_range)
  then have "?m div 12 = 0" and "?m mod 12 = ?m"
    by simp_all
  then show ?thesis
    by (simp add: MakeDay_def DateFromTime_def DayWithinYear_def Let_def)
qed

lemma setDate_back: "setDate t (getDate t - k) = TimeClip (t - k * msPerDay)"
proof -
  have "(Day t - k) * msPerDay + TimeWithinDay t = t - k * msPerDay"
    by (simp add: Day_def TimeWithinDay_def algebra_simps)
  then show ?thesis
    by (simp add: setDate_def getDate_def MakeDay_of_fields)
qed

lemma ninetyDaysAgo_Some:
  "ninetyDaysAgo today = Some since \<Longrightarrow> since = today - 90 * msPerDay"
  by (auto simp: ninetyDaysAgo_def setDate_back TimeClip_def split: if_splits)

text \<open>
  C9. \<open>checkForDuplicate\<close> answers true only when the receipt table holds a row of the
  same user, merchant and amount, whose receipt date is the instant that the date string
  denotes, and which was created less than 90 days before the call. When the query of the
  table raises an error the answer is false.
\<close>

theorem checkForDuplicate_sound:
  "(checkForDuplicate w uid mname amt dt \<longrightarrow>
      (\<exists>rows r rd. w_receipts w = Inr rows \<and> r \<in> set rows
         \<and> Date_parse (w_date_parse w) dt = Some rd
         \<and> r_userId r = uid \<and> r_merchantName r = mname \<and> r_amount r = amt
         \<and> r_receiptDate r = rd \<and> r_createdAt r > w_now w - 90 * msPerDay))
   \<and> (\<forall>e. w_receipts w = Inl e \<longrightarrow> \<not> checkForDuplicate w uid mname amt dt)"
proof (intro conjI impI allI)
  assume "checkForDuplicate w uid mname amt dt"
  then obtain r where q: "duplicate_query w uid mname amt dt = Inr (Some r)"
    by (auto simp: checkForDuplicate_def split: sum.splits)
  then obtain since rd where s: "ninetyDaysAgo (w_now w) = Some since"
    and d: "Date_parse (w_date_parse w) dt = Some rd"
    and f: "findFirst w (\<lambda>r. r_userId r = uid \<and> r_merchantName r = mname \<and> r_amount r = amt
                           \<and> r_receiptDate r = rd \<and> r_createdAt r > since) = Inr (Some r)"
    by (auto simp: duplicate_query_def split: option.splits)
  from f obtain rows where rows: "w_receipts w = Inr rows"
    and fr: "find (\<lambda>r. r_userId r = uid \<and> r_merchantName r = mname \<and> r_amount r = amt
                           \<and> r_receiptDate r = rd \<and> r_createdAt r > since) rows = Some r"
    by (auto simp: findFirst_def split: sum.splits)
  from fr have "r \<in> set rows" and "r_userId r = uid \<and> r_merchantName r = mname \<and> r_amount r = amt
                           \<and> r_receiptDate r = rd \<and> r_createdAt r > since"
    by (auto simp: find_Some_iff)
  moreover from s have "since = w_now w - 90 * msPerDay"
    by (rule ninetyDaysAgo_Some)
  ultimately show "\<exists>rows r rd. w_receipts w = Inr rows \<and> r \<in> set rows
         \<and> Date_parse (w_date_parse w) dt = Some rd
         \<and> r_userId r = uid \<and> r_merchantName r = mname \<and> r_amount r = amt
         \<and> r_receiptDate r = rd \<and> r_createdAt r > w_now w - 90 * msPerDay"
    using rows d by blast
next
  fix e
  assume "w_receipts w = Inl e"
  then show "\<not> checkForDuplicate w uid mname amt dt"
    by (auto simp: checkForDuplicate_def duplicate_query_def findFirst_def split: option.splits)
qed

theorem checkForDuplicate_sound_witness:
  "checkForDuplicate (sample_world reply_uber) 7 (js ''UBER'') (Fin 12.5) (js ''2026-10-20'')
   \<and> (\<exists>rows r rd. w_receipts (sample_world reply_uber) = Inr rows \<and> r \<in> set rows
         \<and> Date_parse (w_date_parse (sample_world reply_uber)) (js ''2026-10-20'') = Some rd
         \<and> r_userId r = 7 \<and> r_merchantName r = (js ''UBER'') \<and> r_amount r = Fin 12.5
         \<and> r_receiptDate r = rd
         \<and> r_createdAt r > w_now (sample_world reply_uber) - 90 * msPerDay)
   \<and> w_receipts db_down_world = Inl (Error (js ''connection refused''))
   \<and> \<not> checkForDuplicate db_down_world 7 (js ''UBER'') (Fin 12.5) (js ''2026-10-20'')"
proof -
  have h1: "checkForDuplicate (sample_world reply_uber) 7 (js ''UBER'') (Fin 12.5) (js ''2026-10-20'')"
    by code_simp
  have h2: "w_receipts db_down_world = Inl (Error (js ''connection refused''))"
    by (simp add: db_down_world_def)
  show ?thesis
    using h1 h2
      checkForDuplicate_sound [of "sample_world reply_uber" 7 "(js ''UBER'')" "Fin 12.5" "(js ''2026-10-20'')"]
      checkForDuplicate_sound [of db_down_world 7 "(js ''UBER'')" "Fin 12.5" "(js ''2026-10-20'')"]
    by blast
qed

subsection \<open>Confidence on the vision path\<close>

lemma coerce_confidence_eq:
  "coerce_confidence c
   = (case c of
        Some (JStr s) \<Rightarrow>
          if s = js ''high'' \<or> s = js ''medium'' \<or> s = js ''low'' then s else js ''medium''
      | _ \<Rightarrow> js ''medium'')"
  by (auto simp: coerce_confidence_def split: option.splits json.splits)

text \<open>
  C10. Let the model answer with the text \<open>content\<close>, in which the object \<open>v\<close> is
  located and parsed, and let the attempt through the vision model succeed with the record
  \<open>r\<close>. Then \<open>r\<close> is the record that the extraction step returns, its date source is
  \<open>ai_vision\<close>, and its confidence is the one that \<open>v\<close> states when that is one of
  \<open>high\<close>, \<open>medium\<close> and \<open>low\<close>, and \<open>medium\<close> otherwise. The date of \<open>r\<close> is the
  one that the date reconciler gives for the date of \<open>v\<close>; the confidence of the
  reconciler is not read, so the record is flagged for review exactly when its own
  confidence is not \<open>high\<close>. There is a run in which the date is drawn at random, with
  the confidence \<open>low\<close> of the reconciler, and the record has the confidence \<open>high\<close> and
  is not flagged.
\<close>

theorem vision_path_keeps_reply_confidence:
  "(imageUrlToBase64 w fileUrl = Inr img
    \<and> call_vision w img filename = Inr (Message (Some content))
    \<and> JSON_parse (locate_json content) = Some v
    \<and> vision_attempt w fileUrl filename = Inr r
    \<longrightarrow> aiOCRExtraction w fileUrl filename = Inr r
        \<and> ExtractedData.date_source r = js ''ai_vision''
        \<and> ExtractedData.confidence r
            = (case get_prop v (js ''confidence'') of
                 Some (JStr s) \<Rightarrow>
                   if s = js ''high'' \<or> s = js ''medium'' \<or> s = js ''low'' then s
                   else js ''medium''
               | _ \<Rightarrow> js ''medium'')
        \<and> ExtractedData.receipt_date r
            = DateResult.date (validateAndFixDate w (w_random w 0)
                                 (get_prop v (js ''receipt_date'')) filename)
        \<and> needs_review (process_extracted w uid r) = (ExtractedData.confidence r \<noteq> js ''high''))
   \<and> (\<exists>w' fileUrl' filename' r'.
          aiOCRExtraction w' fileUrl' filename' = Inr r'
          \<and> ExtractedData.date_source r' = js ''ai_vision''
          \<and> ExtractedData.confidence r' = js ''high''
          \<and> validateAndFixDate w' (w_random w' 0) (Some (JStr (js ''2099-01-01''))) filename'
              = \<lparr>DateResult.date = ExtractedData.receipt_date r', DateResult.confidence = js ''low''\<rparr>
          \<and> \<not> needs_review (process_extracted w' uid r'))"
proof
  show "imageUrlToBase64 w fileUrl = Inr img
    \<and> call_vision w img filename = Inr (Message (Some content))
    \<and> JSON_parse (locate_json content) = Some v
    \<and> vision_attempt w fileUrl filename = Inr r
    \<longrightarrow> aiOCRExtraction w fileUrl filename = Inr r
        \<and> ExtractedData.date_source r = js ''ai_vision''
        \<and> ExtractedData.confidence r
            = (case get_prop v (js ''confidence'') of
                 Some (JStr s) \<Rightarrow>
                   if s = js ''high'' \<or> s = js ''medium'' \<or> s = js ''low'' then s
                   else js ''medium''
               | _ \<Rightarrow> js ''medium'')
        \<and> ExtractedData.receipt_date r
            = DateResult.date (validateAndFixDate w (w_random w 0)
                                 (get_prop v (js ''receipt_date'')) filename)
        \<and> needs_review (process_extracted w uid r) = (ExtractedData.confidence r \<noteq> js ''high'')"
  proof
    assume h: "imageUrlToBase64 w fileUrl = Inr img
      \<and> call_vision w img filename = Inr (Message (Some content))
      \<and> JSON_parse (locate_json content) = Some v
      \<and> vision_attempt w fileUrl filename = Inr r"
    then have v: "validate_reply w v filename = Inr r"
      using vision_attempt_reply_Inr by blast
    note f = validate_reply_Inr [OF v]
    have a: "aiOCRExtraction w fileUrl filename = Inr r"
      using h by (simp add: aiOCRExtraction_def)
    have c: "ExtractedData.confidence r
            = (case get_prop v (js ''confidence'') of
                 Some (JStr s) \<Rightarrow>
                   if s = js ''high'' \<or> s = js ''medium'' \<or> s = js ''low'' then s
                   else js ''medium''
               | _ \<Rightarrow> js ''medium'')"
      using f coerce_confidence_eq [of "get_prop v (js ''confidence'')"] by simp
    have cases: "ExtractedData.confidence r = js ''high'' \<or> ExtractedData.confidence r = js ''medium''
        \<or> ExtractedData.confidence r = js ''low''"
      unfolding c by (auto split: option.splits json.splits)
    have n: "needs_review (process_extracted w uid r) = (ExtractedData.confidence r \<noteq> js ''high'')"
      using cases by (auto simp: process_extracted_def confidence_score_def Let_def)
    from a f c n show "aiOCRExtraction w fileUrl filename = Inr r
        \<and> ExtractedData.date_source r = js ''ai_vision''
        \<and> ExtractedData.confidence r
            = (case get_prop v (js ''confidence'') of
                 Some (JStr s) \<Rightarrow>
                   if s = js ''high'' \<or> s = js ''medium'' \<or> s = js ''low'' then s
                   else js ''medium''
               | _ \<Rightarrow> js ''medium'')
        \<and> ExtractedData.receipt_date r
            = DateResult.date (validateAndFixDate w (w_random w 0)
                                 (get_prop v (js ''receipt_date'')) filename)
        \<and> needs_review (process_extracted w uid r) = (ExtractedData.confidence r \<noteq> js ''high'')"
      by blast
  qed
next
  let ?w = "sample_world reply_uber"
  have a: "aiOCRExtraction ?w (js ''https://files/r.png'') (js ''receipt.jpg'') = Inr uber_record"
    by (rule aiOCRExtraction_of_Inr [OF uber_attempt])
  have s: "ExtractedData.date_source uber_record = js ''ai_vision''"
    and c: "ExtractedData.confidence uber_record = js ''high''"
    by (simp_all add: uber_record_def)
  have d: "validateAndFixDate ?w (w_random ?w 0) (Some (JStr (js ''2099-01-01''))) (js ''receipt.jpg'')
           = \<lparr>DateResult.date = ExtractedData.receipt_date uber_record,
              DateResult.confidence = js ''low''\<rparr>"
    by code_simp
  have n: "\<not> needs_review (process_extracted ?w uid uber_record)"
    by (simp add: process_extracted_def confidence_score_def Let_def uber_record_def)
  from a s c d n show "\<exists>w' fileUrl' filename' r'.
          aiOCRExtraction w' fileUrl' filename' = Inr r'
          \<and> ExtractedData.date_source r' = js ''ai_vision''
          \<and> ExtractedData.confidence r' = js ''high''
          \<and> validateAndFixDate w' (w_random w' 0) (Some (JStr (js ''2099-01-01''))) filename'
              = \<lparr>DateResult.date = ExtractedData.receipt_date r', DateResult.confidence = js ''low''\<rparr>
          \<and> \<not> needs_review (process_extracted w' uid r')"
    by blast
qed

theorem vision_path_keeps_reply_confidence_witness:
  "imageUrlToBase64 (sample_world reply_uber) (js ''https://files/r.png'') = Inr sample_image
   \<and> call_vision (sample_world reply_uber) sample_image (js ''receipt.jpg'')
     = Inr (Message (Some reply_uber))
   \<and> JSON_parse (locate_json reply_uber) = Some uber_json
   \<and> vision_attempt (sample_world reply_uber) (js ''https://files/r.png'') (js ''receipt.jpg'')
     = Inr uber_record
   \<and> aiOCRExtraction (sample_world reply_uber) (js ''https://files/r.png'') (js ''receipt.jpg'')
     = Inr uber_record
   \<and> get_prop uber_json (js ''confidence'') = Some (JStr (js ''high''))
   \<and> ExtractedData.confidence uber_record = js ''high''
   \<and> ExtractedData.date_source uber_record = js ''ai_vision''
   \<and> validateAndFixDate (sample_world reply_uber) (w_random (sample_world reply_uber) 0)
         (get_prop uber_json (js ''receipt_date'')) (js ''receipt.jpg'')
     = \<lparr>DateResult.date = js ''2026-10-20'', DateResult.confidence = js ''low''\<rparr>
   \<and> ExtractedData.receipt_date uber_record = js ''2026-10-20''
   \<and> \<not> needs_review (process_extracted (sample_world reply_uber) 7 uber_record)"
proof -
  have g: "get_prop uber_json (js ''confidence'') = Some (JStr (js ''high''))"
    by code_simp
  have d: "validateAndFixDate (sample_world reply_uber) (w_random (sample_world reply_uber) 0)
         (get_prop uber_json (js ''receipt_date'')) (js ''receipt.jpg'')
     = \<lparr>DateResult.date = js ''2026-10-20'', DateResult.confidence = js ''low''\<rparr>"
    by code_simp
  have c: "ExtractedData.confidence uber_record = js ''high''"
    by (simp add: uber_record_def)
  have t: "ExtractedData.receipt_date uber_record = js ''2026-10-20''"
    by (simp add: uber_record_def)
  show ?thesis
    using sample_fetch [of reply_uber "js ''https://files/r.png''"]
      sample_call [of reply_uber sample_image "js ''receipt.jpg''"]
      uber_parse uber_attempt [of "js ''https://files/r.png''"] g d c t
      vision_path_keeps_reply_confidence [of "sample_world reply_uber" "js ''https://files/r.png''"
        sample_image "js ''receipt.jpg''" reply_uber uber_json uber_record 7]
    by simp
qed

subsection \<open>The synthesised amount\<close>

lemma table_ranges:
  "\<forall>e \<in> set merchantPatterns.
     of_int \<lfloor>fst (avgAmount e)\<rfloor> = fst (avgAmount e)
     \<and> of_int \<lfloor>snd (avgAmount e)\<rfloor> = snd (avgAmount e)
     \<and> fst (avgAmount e) \<le> snd (avgAmount e)"
  by (simp add: merchantPatterns_def mp_def)

lemma amount_range_ok:
  "amount_range (matchedMerchant w filename) = (lo, hi) \<Longrightarrow>
   of_int \<lfloor>lo\<rfloor> = lo \<and> of_int \<lfloor>hi\<rfloor> = hi \<and> lo \<le> hi"
proof (cases "matchedMerchant w filename")
  case None
  assume "amount_range (matchedMerchant w filename) = (lo, hi)"
  with None show ?thesis
    by (auto simp: amount_range_def)
next
  case (Some e)
  assume a: "amount_range (matchedMerchant w filename) = (lo, hi)"
  from Some have "e \<in> set merchantPatterns"
    by (auto simp: matchedMerchant_def find_Some_iff)
  with table_ranges have "of_int \<lfloor>fst (avgAmount e)\<rfloor> = fst (avgAmount e)
     \<and> of_int \<lfloor>snd (avgAmount e)\<rfloor> = snd (avgAmount e)
     \<and> fst (avgAmount e) \<le> snd (avgAmount e)"
    by blast
  moreover from a Some have "avgAmount e = (lo, hi)"
    by (simp add: amount_range_def)
  ultimately show ?thesis
    by simp
qed

lemma synth_amount_bounds:
  assumes r1: "0 \<le> r1" "r1 < 1" and r2: "0 \<le> r2" "r2 < 1"
    and lo: "of_int \<lfloor>lo\<rfloor> = lo" and hi: "of_int \<lfloor>hi\<rfloor> = hi" and le: "lo \<le> hi"
  shows "lo \<le> synth_amount lo hi r1 r2 \<and> synth_amount lo hi r1 r2 \<le> hi + 1"
proof -
  define x where "x = r1 * (hi - lo) + lo + r2"
  define n where "n = Math_round (x * 100)"
  have "0 \<le> r1 * (hi - lo)"
    using r1 le by simp
  then have x_lo: "lo \<le> x"
    using r2 unfolding x_def by linarith
  have "r1 * (hi - lo) \<le> 1 * (hi - lo)"
    using r1 le by (intro mult_right_mono) auto
  then have "r1 * (hi - lo) \<le> hi - lo"
    by simp
  then have x_hi: "x < hi + 1"
    using r2 unfolding x_def by linarith
  have e1: "(of_int (\<lfloor>lo\<rfloor> * 100) :: rat) = lo * 100"
    by (simp add: lo)
  have e2: "(of_int ((\<lfloor>hi\<rfloor> + 1) * 100) :: rat) = hi * 100 + 100"
    by (simp add: hi algebra_simps)
  have "lo * 100 \<le> x * 100 + 1 / 2"
    using x_lo by linarith
  then have "of_int (\<lfloor>lo\<rfloor> * 100) \<le> x * 100 + 1 / 2"
    by (simp only: e1)
  then have "\<lfloor>lo\<rfloor> * 100 \<le> n"
    unfolding n_def Math_round_def by (simp only: le_floor_iff)
  then have "(of_int (\<lfloor>lo\<rfloor> * 100) :: rat) \<le> of_int n"
    by (simp only: of_int_le_iff)
  then have a: "lo * 100 \<le> of_int n"
    by (simp only: e1)
  have "x * 100 + 1 / 2 < hi * 100 + 100 + 1"
    using x_hi by linarith
  then have "x * 100 + 1 / 2 < of_int ((\<lfloor>hi\<rfloor> + 1) * 100) + 1"
    by (simp only: e2)
  then have "n \<le> (\<lfloor>hi\<rfloor> + 1) * 100"
    unfolding n_def Math_round_def by (simp only: floor_le_iff)
  then have "(of_int n :: rat) \<le> of_int ((\<lfloor>hi\<rfloor> + 1) * 100)"
    by (simp only: of_int_le_iff)
  then have b: "of_int n \<le> hi * 100 + 100"
    by (simp only: e2)
  have s: "synth_amount lo hi r1 r2 = of_int n / 100"
    by (simp add: synth_amount_def n_def x_def)
  from a b show ?thesis
    unfolding s by linarith
qed

text \<open>
  C8, as the code has it. The amount of the pattern fallback is
  \<open>round((u * (max - min) + min + j) * 100) / 100\<close> for two random draws \<open>u\<close> and \<open>j\<close>
  from [0, 1): the jitter \<open>j\<close> is below one unit, not below one cent. The amount is at
  least the lower bound of the matched range and exceeds its upper bound by at most one.
\<close>

theorem fallback_amount_bounds:
  "0 \<le> w_random w 0 \<and> w_random w 0 < 1 \<and> 0 \<le> w_random w 1 \<and> w_random w 1 < 1 \<longrightarrow>
     (\<exists>lo hi a. amount_range (matchedMerchant w filename) = (lo, hi)
        \<and> ExtractedData.amount (enhancedPatternExtraction w filename) = Fin a
        \<and> a = of_int (Math_round ((w_random w 0 * (hi - lo) + lo + w_random w 1) * 100)) / 100
        \<and> lo \<le> a \<and> a \<le> hi + 1)"
proof
  assume r: "0 \<le> w_random w 0 \<and> w_random w 0 < 1 \<and> 0 \<le> w_random w 1 \<and> w_random w 1 < 1"
  obtain lo hi where range: "amount_range (matchedMerchant w filename) = (lo, hi)"
    by (cases "amount_range (matchedMerchant w filename)") auto
  let ?a = "synth_amount lo hi (w_random w 0) (w_random w 1)"
  have "ExtractedData.amount (enhancedPatternExtraction w filename) = Fin ?a"
    using range by (simp add: enhancedPatternExtraction_def Let_def)
  moreover have "lo \<le> ?a \<and> ?a \<le> hi + 1"
    using r amount_range_ok [OF range] by (intro synth_amount_bounds) auto
  moreover have "?a = of_int (Math_round ((w_random w 0 * (hi - lo) + lo + w_random w 1) * 100)) / 100"
    by (simp add: synth_amount_def)
  ultimately show "\<exists>lo hi a. amount_range (matchedMerchant w filename) = (lo, hi)
        \<and> ExtractedData.amount (enhancedPatternExtraction w filename) = Fin a
        \<and> a = of_int (Math_round ((w_random w 0 * (hi - lo) + lo + w_random w 1) * 100)) / 100
        \<and> lo \<le> a \<and> a \<le> hi + 1"
    using range by blast
qed

theorem fallback_amount_bounds_witness:
  "0 \<le> w_random offline_world 0 \<and> w_random offline_world 0 < 1
   \<and> 0 \<le> w_random offline_world 1 \<and> w_random offline_world 1 < 1
   \<and> (\<exists>lo hi a. amount_range (matchedMerchant offline_world (js ''starbucks_receipt.jpg'')) = (lo, hi)
        \<and> ExtractedData.amount (enhancedPatternExtraction offline_world (js ''starbucks_receipt.jpg'')) = Fin a
        \<and> a = of_int (Math_round ((w_random offline_world 0 * (hi - lo) + lo
                                     + w_random offline_world 1) * 100)) / 100
        \<and> lo \<le> a \<and> a \<le> hi + 1)"
proof -
  have h: "0 \<le> w_random offline_world 0 \<and> w_random offline_world 0 < 1
     \<and> 0 \<le> w_random offline_world 1 \<and> w_random offline_world 1 < 1"
    by (simp add: offline_world_def sample_world_def)
  show ?thesis
    using h fallback_amount_bounds [of offline_world "(js ''starbucks_receipt.jpg'')"]
    by blast
qed

theorem fallback_amount_counterexample:
  "amount_range (matchedMerchant offline_world (js ''receipt.jpg'')) = (5, 50)
   \<and> w_random offline_world 0 = 99 / 100 \<and> w_random offline_world 1 = 99 / 100
   \<and> ExtractedData.amount (enhancedPatternExtraction offline_world (js ''receipt.jpg'')) = Fin 50.54
   \<and> \<not> ((50.54 :: rat) \<le> 50 + 0.01)"
proof -
  have "amount_range (matchedMerchant offline_world (js ''receipt.jpg'')) = (5, 50)"
    by code_simp
  moreover have "w_random offline_world 0 = 99 / 100 \<and> w_random offline_world 1 = 99 / 100"
    by (simp add: offline_world_def sample_world_def)
  moreover have "ExtractedData.amount (enhancedPatternExtraction offline_world (js ''receipt.jpg'')) = Fin 50.54"
    by code_simp
  moreover have "\<not> ((50.54 :: rat) \<le> 50 + 0.01)"
    by simp
  ultimately show ?thesis
    by blast
qed

subsection \<open>Matches of regular expressions\<close>

lemma first_some_SomeD: "first_some f ks = Some r \<Longrightarrow> \<exists>k \<in> set ks. f k = Some r"
  by (induction ks) (auto split: option.splits)

lemma first_some_None_iff: "first_some f ks = None \<longleftrightarrow> (\<forall>k \<in> set ks. f k = None)"
  by (induction ks) (auto split: option.splits)

lemma rx_search_SomeD:
  "rx_search rx s = Some (i, ls) \<Longrightarrow> i \<le> length s \<and> rx_match rx (drop i s) = Some ls"
proof (induction s arbitrary: i)
  case Nil
  then show ?case by auto
next
  case (Cons c cs)
  show ?case
  proof (cases "rx_match rx (c # cs)")
    case None
    with Cons.prems obtain j where "rx_search rx cs = Some (j, ls)" and "i = Suc j"
      by auto
    with Cons.IH show ?thesis by auto
  next
    case (Some a)
    with Cons.prems show ?thesis by auto
  qed
qed

lemma rx_match_Rep_SomeD:
  "rx_match (Rep p lo hi # r) s = Some ls \<Longrightarrow>
   \<exists>k ls'. ls = k # ls' \<and> lo \<le> k \<and> k \<le> length (takeWhile p s)
     \<and> rx_match r (drop k s) = Some ls'"
proof -
  assume a: "rx_match (Rep p lo hi # r) s = Some ls"
  define top where
    "top = (case hi of None \<Rightarrow> length (takeWhile p s) | Some h \<Rightarrow> min h (length (takeWhile p s)))"
  from a have "first_some (\<lambda>k. map_option ((#) k) (rx_match r (drop k s))) (rev [lo ..< Suc top]) = Some ls"
    unfolding top_def by (simp only: rx_match.simps rx_item.case Let_def)
  then obtain k where k: "k \<in> set (rev [lo ..< Suc top])"
    and m: "map_option ((#) k) (rx_match r (drop k s)) = Some ls"
    using first_some_SomeD [of "\<lambda>k. map_option ((#) k) (rx_match r (drop k s))" "rev [lo ..< Suc top]" ls]
    by blast
  from k have "lo \<le> k \<and> k \<le> top"
    by auto
  moreover have "top \<le> length (takeWhile p s)"
    unfolding top_def by (cases hi) auto
  ultimately show ?thesis
    using m by auto
qed

subsection \<open>Amounts\<close>

lemma digit_not_space: "is_digit c \<Longrightarrow> \<not> is_space c"
  by (auto simp: is_digit_def is_space_def)

lemma pow10_pos: "0 < pow10 e"
  by (simp add: pow10_def)

lemma read_decimal_digit:
  "is_digit d \<Longrightarrow> \<exists>q. read_decimal (d # rest) = Some q \<and> 0 \<le> q"
proof -
  assume "is_digit d"
  then have "takeWhile is_digit (d # rest) \<noteq> []"
    by simp
  then obtain x e where "read_decimal (d # rest) = Some (x * pow10 e)" and "0 \<le> x"
    by (auto simp: read_decimal_def Let_def)
  moreover have "0 \<le> x * pow10 e" if "0 \<le> x" for x
    using that pow10_pos [of e] by simp
  ultimately show ?thesis
    by auto
qed

lemma parseFloat_digit:
  assumes "is_digit d"
  shows "finite_nonneg (parseFloat (d # rest))"
proof -
  from assms have ns: "\<not> is_space d" and nm: "d \<noteq> (ch CHR ''-'')" and np: "d \<noteq> (ch CHR ''+'')"
    and ni: "d \<noteq> (ch CHR ''I'')"
    by (auto simp: is_digit_def is_space_def)
  from read_decimal_digit [OF assms] obtain q where q: "read_decimal (d # rest) = Some q" "0 \<le> q"
    by blast
  from ns nm np ni q show ?thesis
    by (simp add: parseFloat_def Let_def startsWith_def finite_nonneg_def)
qed

lemma amount_rx_match:
  assumes "rx_exec amount_rx text = Some groups"
  shows "\<exists>d rest. concat groups = d # rest \<and> is_digit d"
proof -
  from assms obtain i ls where s: "rx_search amount_rx text = Some (i, ls)"
    and g: "groups = split_lengths ls (drop i text)"
    by (auto simp: rx_exec_def split: option.splits)
  from rx_search_SomeD [OF s] have m: "rx_match amount_rx (drop i text) = Some ls"
    by simp
  let ?u = "drop i text"
  from m obtain k ls' where ls: "ls = k # ls'" and k: "1 \<le> k" "k \<le> length (takeWhile is_digit ?u)"
    unfolding amount_rx_def plus_def using rx_match_Rep_SomeD by blast
  from k have ne: "takeWhile is_digit ?u \<noteq> []"
    by auto
  then obtain d rest where u: "?u = d # rest"
    by (cases ?u) auto
  with ne have d: "is_digit d"
    by (auto split: if_splits)
  from k obtain k' where k': "k = Suc k'"
    by (cases k) auto
  have "concat groups = d # (take k' rest @ concat (split_lengths ls' (drop k' rest)))"
    unfolding g ls u k' by simp
  with d show ?thesis
    by blast
qed

lemma normalizeCurrency_amount:
  "finite_nonneg (CurrencyData.amount (normalizeCurrency v cur))"
proof (cases "rx_exec amount_rx (amount_toString v)")
  case None
  then show ?thesis
    by (simp add: normalizeCurrency_def Let_def finite_nonneg_def)
next
  case (Some groups)
  from amount_rx_match [OF Some] obtain d rest where "concat groups = d # rest" and "is_digit d"
    by blast
  then have "finite_nonneg (parseFloat (concat groups))"
    using parseFloat_digit by simp
  with Some show ?thesis
    by (simp add: normalizeCurrency_def Let_def)
qed

lemma jsnum_or_zero: "jsnum_or a (Fin 0) = (if a = NaN then Fin 0 else a)"
  by (cases a) (auto simp: jsnum_or_def jsnum_truthy_def)

text \<open>
  C6, as the code has it. Let the model answer with the text \<open>content\<close>, in which the
  object \<open>v\<close> is located and parsed, and let the attempt through the vision model succeed
  with the record \<open>r\<close>. The amount of \<open>r\<close> is \<^verbatim>\<open>parseFloat(amount) || 0\<close>: it is 0 when
  the amount of \<open>v\<close> does not read as a number, and the number read otherwise, so it is
  never \<open>NaN\<close>, but it is negative or infinite when the reply says so. The amount that the
  handler reports is the one that \<open>normalizeCurrency\<close> reads in the decimal text of the
  amount of \<open>r\<close>; that one is finite and not negative.
\<close>

theorem vision_amount_never_NaN:
  "imageUrlToBase64 w fileUrl = Inr img
   \<and> call_vision w img filename = Inr (Message (Some content))
   \<and> JSON_parse (locate_json content) = Some v
   \<and> vision_attempt w fileUrl filename = Inr r
   \<longrightarrow> (\<exists>a. parseFloat_value (get_prop v (js ''amount'')) = Inr a
            \<and> ExtractedData.amount r = (if a = NaN then Fin 0 else a))
       \<and> ExtractedData.amount r \<noteq> NaN
       \<and> ProcessedData.amount (process_extracted w uid r)
           = CurrencyData.amount (normalizeCurrency (Inr (ExtractedData.amount r)) (js ''USD''))
       \<and> finite_nonneg (ProcessedData.amount (process_extracted w uid r))"
proof
  assume h: "imageUrlToBase64 w fileUrl = Inr img
   \<and> call_vision w img filename = Inr (Message (Some content))
   \<and> JSON_parse (locate_json content) = Some v
   \<and> vision_attempt w fileUrl filename = Inr r"
  then have v: "validate_reply w v filename = Inr r"
    using vision_attempt_reply_Inr by blast
  from validate_reply_Inr [OF v] obtain a
    where a: "parseFloat_value (get_prop v (js ''amount'')) = Inr a"
      and r: "ExtractedData.amount r = jsnum_or a (Fin 0)"
    by blast
  have r': "ExtractedData.amount r = (if a = NaN then Fin 0 else a)"
    using r jsnum_or_zero by simp
  then have n: "ExtractedData.amount r \<noteq> NaN"
    by (simp split: if_splits)
  have p: "ProcessedData.amount (process_extracted w uid r)
           = CurrencyData.amount (normalizeCurrency (Inr (ExtractedData.amount r)) (js ''USD''))"
    by (simp add: process_extracted_def Let_def)
  have f: "finite_nonneg (ProcessedData.amount (process_extracted w uid r))"
    unfolding p by (rule normalizeCurrency_amount)
  from a r' n p f show "(\<exists>a. parseFloat_value (get_prop v (js ''amount'')) = Inr a
            \<and> ExtractedData.amount r = (if a = NaN then Fin 0 else a))
       \<and> ExtractedData.amount r \<noteq> NaN
       \<and> ProcessedData.amount (process_extracted w uid r)
           = CurrencyData.amount (normalizeCurrency (Inr (ExtractedData.amount r)) (js ''USD''))
       \<and> finite_nonneg (ProcessedData.amount (process_extracted w uid r))"
    by blast
qed

theorem vision_amount_never_NaN_witness:
  "imageUrlToBase64 (sample_world reply_refund) (js ''https://files/r.png'') = Inr sample_image
   \<and> call_vision (sample_world reply_refund) sample_image (js ''receipt.jpg'')
     = Inr (Message (Some reply_refund))
   \<and> JSON_parse (locate_json reply_refund) = Some refund_json
   \<and> vision_attempt (sample_world reply_refund) (js ''https://files/r.png'') (js ''receipt.jpg'')
     = Inr refund_record
   \<and> parseFloat_value (get_prop refund_json (js ''amount'')) = Inr (Fin (- 5))
   \<and> ExtractedData.amount refund_record = Fin (- 5)
   \<and> ProcessedData.amount (process_extracted (sample_world reply_refund) 7 refund_record) = Fin 5
   \<and> finite_nonneg (ProcessedData.amount (process_extracted (sample_world reply_refund) 7 refund_record))"
proof -
  have a: "parseFloat_value (get_prop refund_json (js ''amount'')) = Inr (Fin (- 5))"
    by code_simp
  have r: "ExtractedData.amount refund_record = Fin (- 5)"
    by (simp add: refund_record_def)
  have p: "ProcessedData.amount (process_extracted (sample_world reply_refund) 7 refund_record) = Fin 5"
    by code_simp
  show ?thesis
    using sample_fetch [of reply_refund "js ''https://files/r.png''"]
      sample_call [of reply_refund sample_image "js ''receipt.jpg''"]
      refund_parse refund_attempt [of "js ''https://files/r.png''"] a r p
      vision_amount_never_NaN [of "sample_world reply_refund" "js ''https://files/r.png''"
        sample_image "js ''receipt.jpg''" reply_refund refund_json refund_record 7]
    by blast
qed

text \<open>
  The reply \<^verbatim>\<open>{"merchant_name":"Target","amount":-5,...}\<close>: the record that the extraction
  step returns has the amount -5.
\<close>

theorem vision_amount_counterexample:
  "call_vision (sample_world reply_refund) sample_image (js ''receipt.jpg'')
     = Inr (Message (Some reply_refund))
   \<and> map_sum id ExtractedData.amount
        (aiOCRExtraction (sample_world reply_refund) (js ''https://files/r.png'') (js ''receipt.jpg''))
     = Inr (Fin (- 5))
   \<and> \<not> finite_nonneg (Fin (- 5))"
proof -
  have "aiOCRExtraction (sample_world reply_refund) (js ''https://files/r.png'') (js ''receipt.jpg'')
        = Inr refund_record"
    by (rule aiOCRExtraction_of_Inr [OF refund_attempt])
  then have "map_sum id ExtractedData.amount
        (aiOCRExtraction (sample_world reply_refund) (js ''https://files/r.png'') (js ''receipt.jpg''))
     = Inr (Fin (- 5))"
    by (simp add: refund_record_def)
  moreover have "\<not> finite_nonneg (Fin (- 5))"
    by (simp add: finite_nonneg_def)
  ultimately show ?thesis
    using sample_call [of reply_refund sample_image "js ''receipt.jpg''"]
    by blast
qed

subsection \<open>The date of the record\<close>


















subsection \<open>The reply wrapped in prose\<close>







end
